theory Spec2Isabelle
  imports Complex_Main "HOL-Library.Char_ord" "HOL-Library.List_Lexorder"
    "HOL-Library.Multiset" "HOL-Library.AList"
begin

section \<open>Values of the Python program\<close>

text \<open>
  The client of \<^verbatim>\<open>examples/python/weather_client.py\<close> is embedded function by
  function. Python \<^verbatim>\<open>str\<close> is \<^typ>\<open>string\<close> (code points below 256), \<^verbatim>\<open>bytes\<close>
  is a list of characters as well, \<^verbatim>\<open>float\<close> and \<^verbatim>\<open>time.time()\<close> are \<^typ>\<open>real\<close>
  (rounding is not modelled), \<^verbatim>\<open>int\<close> is \<^typ>\<open>int\<close>. A decoded JSON document is a
  value of \<open>json\<close>; Python's \<^verbatim>\<open>None\<close> is \<open>JNull\<close>. A Python \<^verbatim>\<open>dict\<close> whose
  iteration order matters is an association list with distinct keys, in insertion order.
\<close>

datatype json =
    JNull
  | JBool bool
  | JNum real
  | JStr string
  | JArr "json list"
  | JObj "(string \<times> json) list"

text \<open>What the client puts into a query-parameter dict: strings, the day count, the
  coordinates as given (possibly \<^verbatim>\<open>None\<close>).\<close>

datatype pval = PNone | PStr string | PInt int | PFloat real

type_synonym params = "(string \<times> pval) list"

text \<open>The exception classes the module raises or lets through. \<open>WeatherAPIError\<close> is the
  base class of \<open>AuthenticationError\<close> and \<open>RateLimitError\<close>; the others are builtins.\<close>

datatype error =
    ValueError string
  | KeyError string
  | TypeError string
  | WeatherAPIError string
  | AuthenticationError string
  | RateLimitError string int

fun is_WeatherAPIError :: "error \<Rightarrow> bool" where
  "is_WeatherAPIError (WeatherAPIError _) = True"
| "is_WeatherAPIError (AuthenticationError _) = True"
| "is_WeatherAPIError (RateLimitError _ _) = True"
| "is_WeatherAPIError _ = False"

text \<open>\<^verbatim>\<open>str(e)\<close> of an exception built from one message.\<close>

fun str_of_error :: "error \<Rightarrow> string" where
  "str_of_error (ValueError m) = m"
| "str_of_error (KeyError m) = [CHR 0x27] @ m @ [CHR 0x27]"
| "str_of_error (TypeError m) = m"
| "str_of_error (WeatherAPIError m) = m"
| "str_of_error (AuthenticationError m) = m"
| "str_of_error (RateLimitError m _) = m"

text \<open>Truthiness, as \<^verbatim>\<open>if x:\<close> and \<^verbatim>\<open>not x\<close> test it.\<close>

fun truthy :: "json \<Rightarrow> bool" where
  "truthy JNull = False"
| "truthy (JBool b) = b"
| "truthy (JNum x) = (x \<noteq> 0)"
| "truthy (JStr s) = (s \<noteq> [])"
| "truthy (JArr xs) = (xs \<noteq> [])"
| "truthy (JObj kvs) = (kvs \<noteq> [])"

fun truthy_str :: "string option \<Rightarrow> bool" where
  "truthy_str None = False"
| "truthy_str (Some s) = (s \<noteq> [])"

fun truthy_float :: "real option \<Rightarrow> bool" where
  "truthy_float None = False"
| "truthy_float (Some x) = (x \<noteq> 0)"

section \<open>The environment\<close>

text \<open>
  Library functions the module calls but does not define are parameters of the model,
  collected in one record: the MD5 hex digest of a byte string, the JSON text of one
  scalar (\<^verbatim>\<open>json.dumps\<close> of a string, a number or \<^verbatim>\<open>None\<close>), the hex digest of
  HMAC-SHA256 (key first, message second) and \<^verbatim>\<open>int(s)\<close> of a string (\<open>None\<close> where
  it raises \<^verbatim>\<open>ValueError\<close>).
\<close>

record pylib =
  md5_hex :: "string \<Rightarrow> string"
  json_atom :: "pval \<Rightarrow> string"
  hmac_sha256_hex :: "string \<Rightarrow> string \<Rightarrow> string"
  int_of_str :: "string \<Rightarrow> int option"

text \<open>\<^verbatim>\<open>str.encode()\<close>: UTF-8, one byte for a code point below 128 (\<open>digit7\<close>, the bit
  of weight 128, is clear) and two bytes from 128 to 255.\<close>

definition utf8_char :: "char \<Rightarrow> string" where
  "utf8_char c =
     (if \<not> digit7 c then [c]
      else (let n = (of_char c :: nat)
            in [char_of (192 + n div 64), char_of (128 + n mod 64)]))"

definition encode :: "string \<Rightarrow> string" where
  "encode s = concat (map utf8_char s)"

section \<open>The request cache\<close>

type_synonym cache = "string \<rightharpoonup> (json \<times> real)"

definition cache_ttl :: real where
  "cache_ttl = 300"

fun join :: "string \<Rightarrow> string list \<Rightarrow> string" where
  "join sep [] = []"
| "join sep [x] = x"
| "join sep (x # y # ys) = x @ sep @ join sep (y # ys)"

text \<open>\<^verbatim>\<open>json.dumps(params, sort_keys=True)\<close> of a flat dict: the items sorted by key,
  rendered with the default separators.\<close>

definition json_dumps_sorted :: "pylib \<Rightarrow> params \<Rightarrow> string" where
  "json_dumps_sorted L ps =
     ''{'' @ join '', '' (map (\<lambda>(k, v). json_atom L (PStr k) @ '': '' @ json_atom L v)
                              (sort_key fst ps)) @ ''}''"

definition get_cache_key :: "pylib \<Rightarrow> string \<Rightarrow> params \<Rightarrow> string" where
  "get_cache_key L endpoint ps =
     (let cache_data = endpoint @ '':'' @ json_dumps_sorted L ps
      in md5_hex L (encode cache_data))"

text \<open>\<^verbatim>\<open>_get_from_cache\<close>; \<open>now\<close> is the value \<^verbatim>\<open>time.time()\<close> returns inside it. The
  result \<open>JNull\<close> is Python's \<^verbatim>\<open>None\<close>, the miss.\<close>

definition get_from_cache :: "cache \<Rightarrow> string \<Rightarrow> real \<Rightarrow> json" where
  "get_from_cache c cache_key now =
     (case c cache_key of
        None \<Rightarrow> JNull
      | Some (data, timestamp) \<Rightarrow>
          if now - timestamp < cache_ttl then data else JNull)"

text \<open>\<^verbatim>\<open>_save_to_cache\<close> reads the clock twice: \<open>t_store\<close> is the timestamp stored with
  the entry, \<open>current_time\<close> the later reading the sweep compares against.\<close>

definition save_to_cache :: "cache \<Rightarrow> string \<Rightarrow> json \<Rightarrow> real \<Rightarrow> real \<Rightarrow> cache" where
  "save_to_cache c cache_key data t_store current_time =
     (let c1 = c(cache_key \<mapsto> (data, t_store))
      in (\<lambda>k. case c1 k of
                 None \<Rightarrow> None
               | Some v \<Rightarrow> if current_time - snd v < cache_ttl then Some v else None))"


section \<open>Transport\<close>

record config =
  api_key :: string
  base_url :: string
  timeout :: int
  max_retries :: int
  verify_ssl :: bool
  debug :: bool

text \<open>The arguments of one \<^verbatim>\<open>session.request\<close> call. The URL is
  \<^verbatim>\<open>urljoin(base_url, endpoint)\<close>, kept as its two arguments.\<close>

record request =
  req_method :: string
  req_base :: string
  req_endpoint :: string
  req_params :: "params option"
  req_json :: "json option"
  req_timeout :: int
  req_verify :: bool

text \<open>What the program reads of a \<^verbatim>\<open>requests.Response\<close>: the status code, the header
  lookup \<^verbatim>\<open>headers.get\<close>, the text of the \<^verbatim>\<open>HTTPError\<close> that \<^verbatim>\<open>raise_for_status\<close>
  would raise, and \<^verbatim>\<open>json()\<close>: the decoded body, or the text of the decoding error, which
  is a \<^verbatim>\<open>RequestException\<close> (requests 2.27 and later).\<close>

record response =
  status_code :: int
  header :: "string \<Rightarrow> string option"
  http_error_text :: string
  body :: "string + json"

text \<open>\<^verbatim>\<open>session.request\<close> either raises a \<^verbatim>\<open>RequestException\<close> (with its text) or
  returns a response.\<close>

datatype net_result = Raises string | Returns response

text \<open>
  The outside world: the \<open>n\<close>-th reading of \<^verbatim>\<open>time.time()\<close>, the answer of the network
  to a request given all requests made so far (the last one is the current one), and
  whether the 60 seconds of the retry decorator are over at the moment an attempt
  starts, given how many requests have been made by then.
\<close>

record env =
  lib :: pylib
  clock :: "nat \<Rightarrow> real"
  net :: "request list \<Rightarrow> net_result"
  out_of_time :: "nat \<Rightarrow> bool"

text \<open>The client object, together with the two counters through which it touches the
  world: how many times the clock has been read and which requests have gone out,
  oldest first.\<close>

record client =
  config :: config
  cache :: cache
  ticks :: nat
  sent :: "request list"

text \<open>\<^verbatim>\<open>WeatherClient.__init__\<close>; \<open>env_key\<close> is \<^verbatim>\<open>os.getenv('WEATHER_API_KEY')\<close>. The
  keyword arguments are left at their defaults.\<close>

definition WeatherClient_init :: "string option \<Rightarrow> string option \<Rightarrow> error + client" where
  "WeatherClient_init key env_key =
     (let k = (if truthy_str key then key else env_key)
      in case k of
           None \<Rightarrow> Inl (ValueError ''API key is required'')
         | Some a \<Rightarrow>
             if a = [] then Inl (ValueError ''API key is required'')
             else Inr \<lparr>config = \<lparr>api_key = a, base_url = ''https://api.globalweather.com/v1'',
                                     timeout = 30, max_retries = 3, verify_ssl = True,
                                     debug = False\<rparr>,
                       cache = Map.empty, ticks = 0, sent = []\<rparr>)"

definition read_clock :: "env \<Rightarrow> client \<Rightarrow> real \<times> client" where
  "read_clock E s = (clock E (ticks s), s\<lparr>ticks := Suc (ticks s)\<rparr>)"

text \<open>\<^verbatim>\<open>_get_from_cache\<close> on the client: the clock is read only when the key is there.\<close>

definition get_from_cache_io :: "env \<Rightarrow> client \<Rightarrow> string \<Rightarrow> json \<times> client" where
  "get_from_cache_io E s cache_key =
     (if cache_key \<in> dom (cache s)
      then (let (now, s1) = read_clock E s
            in (get_from_cache (cache s) cache_key now, s1))
      else (JNull, s))"

definition save_to_cache_io :: "env \<Rightarrow> client \<Rightarrow> string \<Rightarrow> json \<Rightarrow> client" where
  "save_to_cache_io E s cache_key data =
     (let (t_store, s1) = read_clock E s;
          (current_time, s2) = read_clock E s1
      in s2\<lparr>cache := save_to_cache (cache s2) cache_key data t_store current_time\<rparr>)"

fun str_nat :: "nat \<Rightarrow> string" where
  "str_nat n =
     (if n < 10 then [''0123456789'' ! n]
      else str_nat (n div 10) @ [''0123456789'' ! (n mod 10)])"

declare str_nat.simps [simp del]

definition str_int :: "int \<Rightarrow> string" where
  "str_int i = (if i < 0 then ''-'' @ str_nat (nat (- i)) else str_nat (nat i))"

text \<open>The part of \<^verbatim>\<open>_make_request\<close> from \<^verbatim>\<open>url = urljoin(...)\<close> on: one network call
  and the classification of its outcome.\<close>

definition perform_request ::
  "env \<Rightarrow> client \<Rightarrow> string \<Rightarrow> string \<Rightarrow> params option \<Rightarrow> json option \<Rightarrow> bool \<Rightarrow> string
     \<Rightarrow> (error + json) \<times> client" where
  "perform_request E s method endpoint ps data use_cache cache_key =
     (let rq = \<lparr>req_method = method, req_base = base_url (config s), req_endpoint = endpoint,
                req_params = ps, req_json = data, req_timeout = timeout (config s),
                req_verify = verify_ssl (config s)\<rparr>;
          s1 = s\<lparr>sent := sent s @ [rq]\<rparr>
      in case net E (sent s1) of
           Raises msg \<Rightarrow> (Inl (WeatherAPIError (''Request failed: '' @ msg)), s1)
         | Returns r \<Rightarrow>
             if status_code r = 401 then (Inl (AuthenticationError ''Invalid API key''), s1)
             else if status_code r = 429 then
               (case header r ''Retry-After'' of
                  None \<Rightarrow> (Inl (RateLimitError ''Rate limit exceeded'' 60), s1)
                | Some a \<Rightarrow>
                    (case int_of_str (lib E) a of
                       None \<Rightarrow>
                         (Inl (ValueError (''invalid literal for int() with base 10: '' @
                                          [CHR 0x27] @ a @ [CHR 0x27])), s1)
                     | Some n \<Rightarrow> (Inl (RateLimitError ''Rate limit exceeded'' n), s1)))
             else if status_code r = 404 then
               (Inl (WeatherAPIError (''Resource not found: '' @ endpoint)), s1)
             else if status_code r \<ge> 500 then
               (Inl (WeatherAPIError (''Server error: '' @ str_int (status_code r))), s1)
             else if status_code r \<ge> 400 then
               (Inl (WeatherAPIError (''Request failed: '' @ http_error_text r)), s1)
             else
               (case body r of
                  Inl msg \<Rightarrow> (Inl (WeatherAPIError (''Request failed: '' @ msg)), s1)
                | Inr response_data \<Rightarrow>
                    (Inr response_data,
                     if method = ''GET'' \<and> use_cache
                     then save_to_cache_io E s1 cache_key response_data
                     else s1)))"

text \<open>The body of \<^verbatim>\<open>_make_request\<close>, without its decorator.\<close>

definition make_request_once ::
  "env \<Rightarrow> client \<Rightarrow> string \<Rightarrow> string \<Rightarrow> params option \<Rightarrow> json option \<Rightarrow> bool
     \<Rightarrow> (error + json) \<times> client" where
  "make_request_once E s method endpoint ps data use_cache =
     (let cache_key = get_cache_key (lib E) endpoint (case ps of None \<Rightarrow> [] | Some d \<Rightarrow> d)
      in if method = ''GET'' \<and> use_cache
         then (let (cached_data, s1) = get_from_cache_io E s cache_key
               in if truthy cached_data then (Inr cached_data, s1)
                  else perform_request E s1 method endpoint ps data use_cache cache_key)
         else perform_request E s method endpoint ps data use_cache cache_key)"

text \<open>
  \<^verbatim>\<open>@backoff.on_exception(backoff.expo, (RequestException, RateLimitError), max_tries=3,
  max_time=60)\<close>: the body is tried again after a \<^verbatim>\<open>RateLimitError\<close> (the body turns
  every \<^verbatim>\<open>RequestException\<close> into a \<^verbatim>\<open>WeatherAPIError\<close> itself) unless it was the
  last allowed try or the time was over when the try began. \<open>n\<close> counts the tries left
  after this one. The waiting between tries is not modelled.
\<close>

primrec make_request_tries ::
  "nat \<Rightarrow> env \<Rightarrow> client \<Rightarrow> string \<Rightarrow> string \<Rightarrow> params option \<Rightarrow> json option \<Rightarrow> bool
     \<Rightarrow> (error + json) \<times> client" where
  "make_request_tries 0 E s method endpoint ps data use_cache =
     make_request_once E s method endpoint ps data use_cache"
| "make_request_tries (Suc n) E s method endpoint ps data use_cache =
     (let late = out_of_time E (length (sent s));
          (r, s1) = make_request_once E s method endpoint ps data use_cache
      in case r of
           Inl (RateLimitError m a) \<Rightarrow>
             if late then (r, s1)
             else make_request_tries n E s1 method endpoint ps data use_cache
         | _ \<Rightarrow> (r, s1))"

definition make_request ::
  "env \<Rightarrow> client \<Rightarrow> string \<Rightarrow> string \<Rightarrow> params option \<Rightarrow> json option \<Rightarrow> bool
     \<Rightarrow> (error + json) \<times> client" where
  "make_request E s method endpoint ps data use_cache =
     make_request_tries 2 E s method endpoint ps data use_cache"

section \<open>Client operations\<close>

datatype WeatherUnits = METRIC | IMPERIAL | KELVIN

fun units_value :: "WeatherUnits \<Rightarrow> string" where
  "units_value METRIC = ''metric''"
| "units_value IMPERIAL = ''imperial''"
| "units_value KELVIN = ''kelvin''"

datatype WeatherSeverity = MINOR | MODERATE | SEVERE | EXTREME

fun severity_value :: "WeatherSeverity \<Rightarrow> string" where
  "severity_value MINOR = ''minor''"
| "severity_value MODERATE = ''moderate''"
| "severity_value SEVERE = ''severe''"
| "severity_value EXTREME = ''extreme''"

fun float_param :: "real option \<Rightarrow> pval" where
  "float_param None = PNone"
| "float_param (Some x) = PFloat x"

text \<open>The four weather operations end with the same lines:
  \<^verbatim>\<open>if location: params['city'] = location else: params['lat'] = lat; params['lon'] = lon\<close>.\<close>

definition add_location :: "params \<Rightarrow> string option \<Rightarrow> real option \<Rightarrow> real option \<Rightarrow> params" where
  "add_location ps location lat lon =
     (case location of
        Some l \<Rightarrow>
          if l \<noteq> [] then AList.update ''city'' (PStr l) ps
          else AList.update ''lon'' (float_param lon) (AList.update ''lat'' (float_param lat) ps)
      | None \<Rightarrow>
          AList.update ''lon'' (float_param lon) (AList.update ''lat'' (float_param lat) ps))"

definition get_current_weather ::
  "env \<Rightarrow> client \<Rightarrow> string option \<Rightarrow> real option \<Rightarrow> real option \<Rightarrow> WeatherUnits \<Rightarrow> string
     \<Rightarrow> (error + json) \<times> client" where
  "get_current_weather E s location lat lon units lang =
     (if \<not> truthy_str location \<and> \<not> (truthy_float lat \<and> truthy_float lon)
      then (Inl (ValueError ''Either location or coordinates required''), s)
      else (let ps = [(''units'', PStr (units_value units)), (''lang'', PStr lang)]
            in make_request E s ''GET'' ''/weather/current''
                 (Some (add_location ps location lat lon)) None True))"

definition get_forecast ::
  "env \<Rightarrow> client \<Rightarrow> string option \<Rightarrow> real option \<Rightarrow> real option \<Rightarrow> int \<Rightarrow> WeatherUnits
     \<Rightarrow> (error + json) \<times> client" where
  "get_forecast E s location lat lon days units =
     (if \<not> (1 \<le> days \<and> days \<le> 7)
      then (Inl (ValueError ''Days must be between 1 and 7''), s)
      else (let ps = [(''days'', PInt days), (''units'', PStr (units_value units))]
            in make_request E s ''GET'' ''/weather/forecast''
                 (Some (add_location ps location lat lon)) None True))"

text \<open>The date argument: a string, or a \<^verbatim>\<open>datetime\<close>, which is represented by what
  \<^verbatim>\<open>strftime('%Y-%m-%d')\<close> returns for it.\<close>

datatype date_arg = DateStr string | DateTime string

fun date_str :: "date_arg \<Rightarrow> string" where
  "date_str (DateTime formatted) = formatted"
| "date_str (DateStr d) = d"

definition get_historical_weather ::
  "env \<Rightarrow> client \<Rightarrow> date_arg \<Rightarrow> string option \<Rightarrow> real option \<Rightarrow> real option \<Rightarrow> WeatherUnits
     \<Rightarrow> (error + json) \<times> client" where
  "get_historical_weather E s date location lat lon units =
     (let ps = [(''date'', PStr (date_str date)), (''units'', PStr (units_value units))]
      in make_request E s ''GET'' ''/weather/historical''
           (Some (add_location ps location lat lon)) None True)"

definition get_alerts ::
  "env \<Rightarrow> client \<Rightarrow> string option \<Rightarrow> real option \<Rightarrow> real option \<Rightarrow> WeatherSeverity option
     \<Rightarrow> (error + json) \<times> client" where
  "get_alerts E s location lat lon severity =
     (let ps = add_location [] location lat lon;
          ps' = (case severity of
                   None \<Rightarrow> ps
                 | Some sev \<Rightarrow> AList.update ''severity'' (PStr (severity_value sev)) ps)
      in make_request E s ''GET'' ''/weather/alerts'' (Some ps') None True)"

text \<open>\<^verbatim>\<open>hmac.compare_digest\<close> on two \<^verbatim>\<open>str\<close> arguments: both must be ASCII (every
  code point below 128), otherwise it raises \<^verbatim>\<open>TypeError\<close>.\<close>

definition is_ascii :: "string \<Rightarrow> bool" where
  "is_ascii s = list_all (\<lambda>c. \<not> digit7 c) s"

definition compare_digest :: "string \<Rightarrow> string \<Rightarrow> error + bool" where
  "compare_digest a b =
     (if is_ascii a \<and> is_ascii b then Inr (a = b)
      else Inl (TypeError ''comparing strings with non-ASCII characters is not supported''))"

definition verify_webhook_signature :: "pylib \<Rightarrow> string \<Rightarrow> string \<Rightarrow> string \<Rightarrow> error + bool" where
  "verify_webhook_signature L payload signature secret =
     (let expected = hmac_sha256_hex L (encode secret) payload
      in compare_digest expected signature)"

text \<open>The body of the \<^verbatim>\<open>try\<close> in \<^verbatim>\<open>batch_weather_request\<close>: the call for one
  location, with the defaults of the arguments it leaves out.\<close>

definition batch_call :: "env \<Rightarrow> client \<Rightarrow> string \<Rightarrow> string \<Rightarrow> (error + json) \<times> client" where
  "batch_call E s request_type location =
     (if request_type = ''current''
      then get_current_weather E s (Some location) None None METRIC ''en''
      else if request_type = ''forecast''
      then get_forecast E s (Some location) None None 5 METRIC
      else (Inl (ValueError (''Invalid request type: '' @ request_type)), s))"

definition error_marker :: "error \<Rightarrow> json" where
  "error_marker e = JObj [(''error'', JStr (str_of_error e))]"

text \<open>The loop of \<^verbatim>\<open>batch_weather_request\<close>; \<open>results\<close> is the dict built so far. Only a
  \<^verbatim>\<open>WeatherAPIError\<close> is caught; any other exception leaves the function.\<close>

fun batch_loop ::
  "env \<Rightarrow> client \<Rightarrow> string \<Rightarrow> (string \<times> json) list \<Rightarrow> string list
     \<Rightarrow> (error + (string \<times> json) list) \<times> client" where
  "batch_loop E s request_type results [] = (Inr results, s)"
| "batch_loop E s request_type results (location # locations) =
     (case batch_call E s request_type location of
        (Inr data, s1) \<Rightarrow>
          batch_loop E s1 request_type (AList.update location data results) locations
      | (Inl e, s1) \<Rightarrow>
          if is_WeatherAPIError e
          then batch_loop E s1 request_type
                 (AList.update location (error_marker e) results) locations
          else (Inl e, s1))"

definition batch_weather_request ::
  "env \<Rightarrow> client \<Rightarrow> string list \<Rightarrow> string
     \<Rightarrow> (error + (string \<times> json) list) \<times> client" where
  "batch_weather_request E s locations request_type =
     batch_loop E s request_type [] locations"

section \<open>The monitor\<close>

text \<open>One threshold rule, the dict \<^verbatim>\<open>set_threshold\<close> stores.\<close>

record threshold =
  th_operator :: string
  th_value :: real
  th_parameter :: string
  th_location :: string

text \<open>The dict handed to the callbacks.\<close>

record event =
  ev_location :: string
  ev_parameter :: string
  ev_value :: json
  ev_threshold :: real
  ev_operator :: string

text \<open>
  A callback is identified by a number. What a callback does is outside the program; the
  model records each call in \<open>fired\<close>, oldest first, and assumes that a callback does not
  touch the monitor or its client. An exception a callback raises is caught and logged by
  \<^verbatim>\<open>_trigger_callbacks\<close>, so the outcome of a call does not appear.
\<close>

record monitor =
  mon_client :: client
  thresholds :: "(string \<times> threshold) list"
  callbacks :: "(string \<times> nat list) list"
  fired :: "(nat \<times> event) list"

definition WeatherMonitor_init :: "client \<Rightarrow> monitor" where
  "WeatherMonitor_init c = \<lparr>mon_client = c, thresholds = [], callbacks = [], fired = []\<rparr>"

definition set_threshold :: "monitor \<Rightarrow> string \<Rightarrow> string \<Rightarrow> real \<Rightarrow> string \<Rightarrow> monitor" where
  "set_threshold m parameter operator v location =
     (let key = location @ '':'' @ parameter
      in m\<lparr>thresholds :=
             AList.update key \<lparr>th_operator = operator, th_value = v,
                                th_parameter = parameter, th_location = location\<rparr>
               (thresholds m)\<rparr>)"

definition on_threshold_exceeded :: "monitor \<Rightarrow> nat \<Rightarrow> monitor" where
  "on_threshold_exceeded m callback =
     (let cbs = (if ''threshold_exceeded'' \<notin> set (map fst (callbacks m))
                 then AList.update ''threshold_exceeded'' [] (callbacks m)
                 else callbacks m)
      in m\<lparr>callbacks :=
             AList.map_entry ''threshold_exceeded'' (\<lambda>l. l @ [callback]) cbs\<rparr>)"

definition operators :: "string list" where
  "operators = [''>'', ''<'', ''>='', ''<='', ''=='', ''!='']"

text \<open>A JSON value as a number in a comparison: numbers, and booleans as 1 and 0.\<close>

fun num_of :: "json \<Rightarrow> real option" where
  "num_of (JNum x) = Some x"
| "num_of (JBool b) = Some (if b then 1 else 0)"
| "num_of _ = None"

fun type_name :: "json \<Rightarrow> string" where
  "type_name JNull = ''NoneType''"
| "type_name (JBool _) = ''bool''"
| "type_name (JNum _) = ''float''"
| "type_name (JStr _) = ''str''"
| "type_name (JArr _) = ''list''"
| "type_name (JObj _) = ''dict''"

text \<open>\<^verbatim>\<open>_check_condition\<close>. The operator is looked up first; then the two values are
  compared as Python compares them: an ordering between a number and a value that is not
  a number raises \<^verbatim>\<open>TypeError\<close>, while \<^verbatim>\<open>==\<close> and \<^verbatim>\<open>!=\<close> answer.\<close>

definition check_condition :: "json \<Rightarrow> string \<Rightarrow> real \<Rightarrow> error + bool" where
  "check_condition v operator threshold =
     (if operator \<notin> set operators then Inl (ValueError (''Invalid operator: '' @ operator))
      else case num_of v of
             Some x \<Rightarrow>
               Inr (if operator = ''>'' then x > threshold
                    else if operator = ''<'' then x < threshold
                    else if operator = ''>='' then x \<ge> threshold
                    else if operator = ''<='' then x \<le> threshold
                    else if operator = ''=='' then x = threshold
                    else x \<noteq> threshold)
           | None \<Rightarrow>
               if operator = ''=='' then Inr False
               else if operator = ''!='' then Inr True
               else Inl (TypeError ([CHR 0x27] @ operator @
                      [CHR 0x27] @ '' not supported between instances of '' @
                      [CHR 0x27] @ type_name v @ [CHR 0x27] @ '' and '' @
                      [CHR 0x27] @ ''float'' @ [CHR 0x27])))"

definition trigger_callbacks :: "monitor \<Rightarrow> string \<Rightarrow> event \<Rightarrow> monitor" where
  "trigger_callbacks m event_type data =
     (case map_of (callbacks m) event_type of
        None \<Rightarrow> m
      | Some cbs \<Rightarrow> m\<lparr>fired := fired m @ map (\<lambda>callback. (callback, data)) cbs\<rparr>)"

definition starts_with :: "string \<Rightarrow> string \<Rightarrow> bool" where
  "starts_with s pre = (take (length pre) s = pre)"

fun is_substring :: "string \<Rightarrow> string \<Rightarrow> bool" where
  "is_substring p [] = (p = [])"
| "is_substring p (c # cs) = (starts_with (c # cs) p \<or> is_substring p cs)"

text \<open>\<^verbatim>\<open>key in obj\<close> for a string \<open>key\<close>.\<close>

fun contains :: "json \<Rightarrow> string \<Rightarrow> error + bool" where
  "contains (JObj kvs) k = Inr (k \<in> set (map fst kvs))"
| "contains (JArr xs) k = Inr (JStr k \<in> set xs)"
| "contains (JStr s) k = Inr (is_substring k s)"
| "contains v k =
     Inl (TypeError (''argument of type '' @ [CHR 0x27] @ type_name v @ [CHR 0x27] @
                     '' is not iterable''))"

text \<open>\<^verbatim>\<open>obj[key]\<close> for a string \<open>key\<close>.\<close>

fun subscript :: "json \<Rightarrow> string \<Rightarrow> error + json" where
  "subscript (JObj kvs) k =
     (case map_of kvs k of None \<Rightarrow> Inl (KeyError k) | Some v \<Rightarrow> Inr v)"
| "subscript (JArr xs) k = Inl (TypeError ''list indices must be integers or slices, not str'')"
| "subscript (JStr s) k = Inl (TypeError ''string indices must be integers'')"
| "subscript v k =
     Inl (TypeError ([CHR 0x27] @ type_name v @ [CHR 0x27] @ '' object is not subscriptable''))"

text \<open>The inner loop of \<^verbatim>\<open>check_thresholds\<close> over \<^verbatim>\<open>self.thresholds.items()\<close>, for one
  location and the \<^verbatim>\<open>current\<close> part of its weather.\<close>

fun check_rules ::
  "monitor \<Rightarrow> string \<Rightarrow> json \<Rightarrow> (string \<times> threshold) list \<Rightarrow> (error + unit) \<times> monitor" where
  "check_rules m location current_data [] = (Inr (), m)"
| "check_rules m location current_data ((key, th) # rest) =
     (if \<not> starts_with key (location @ '':'') then check_rules m location current_data rest
      else (let param = th_parameter th
            in case contains current_data param of
                 Inl e \<Rightarrow> (Inl e, m)
               | Inr False \<Rightarrow> check_rules m location current_data rest
               | Inr True \<Rightarrow>
                   (case subscript current_data param of
                      Inl e \<Rightarrow> (Inl e, m)
                    | Inr v \<Rightarrow>
                        (case check_condition v (th_operator th) (th_value th) of
                           Inl e \<Rightarrow> (Inl e, m)
                         | Inr False \<Rightarrow> check_rules m location current_data rest
                         | Inr True \<Rightarrow>
                             check_rules
                               (trigger_callbacks m ''threshold_exceeded''
                                  \<lparr>ev_location = location, ev_parameter = param,
                                   ev_value = v, ev_threshold = th_value th,
                                   ev_operator = th_operator th\<rparr>)
                               location current_data rest))))"

text \<open>The body of the \<^verbatim>\<open>try\<close> for one location.\<close>

definition check_location :: "env \<Rightarrow> monitor \<Rightarrow> string \<Rightarrow> (error + unit) \<times> monitor" where
  "check_location E m location =
     (case get_current_weather E (mon_client m) (Some location) None None METRIC ''en'' of
        (Inl e, c1) \<Rightarrow> (Inl e, m\<lparr>mon_client := c1\<rparr>)
      | (Inr weather, c1) \<Rightarrow>
          (let m1 = m\<lparr>mon_client := c1\<rparr>
           in case subscript weather ''current'' of
                Inl e \<Rightarrow> (Inl e, m1)
              | Inr current_data \<Rightarrow> check_rules m1 location current_data (thresholds m1)))"

text \<open>The outer loop, over the locations in the order given; a \<^verbatim>\<open>WeatherAPIError\<close> is
  logged and the loop goes on, any other exception leaves \<^verbatim>\<open>check_thresholds\<close>.\<close>

fun check_locations :: "env \<Rightarrow> monitor \<Rightarrow> string list \<Rightarrow> (error + unit) \<times> monitor" where
  "check_locations E m [] = (Inr (), m)"
| "check_locations E m (location # rest) =
     (case check_location E m location of
        (Inr u, m1) \<Rightarrow> check_locations E m1 rest
      | (Inl e, m1) \<Rightarrow>
          if is_WeatherAPIError e then check_locations E m1 rest else (Inl e, m1))"

text \<open>
  \<^verbatim>\<open>check_thresholds\<close>. The locations are collected in a Python \<^verbatim>\<open>set\<close>, which is iterated
  in an order the program does not determine (it varies with the hash seed of the
  process). The order is therefore an argument: \<open>order\<close> is the list of the locations as
  the loop meets them, some list without repetition whose elements are the locations of
  the rules.
\<close>

definition iteration_order :: "monitor \<Rightarrow> string list \<Rightarrow> bool" where
  "iteration_order m order =
     (distinct order \<and> set order = set (map (\<lambda>(key, th). th_location th) (thresholds m)))"

definition check_thresholds :: "env \<Rightarrow> monitor \<Rightarrow> string list \<Rightarrow> (error + unit) \<times> monitor" where
  "check_thresholds E m order = check_locations E m order"

section \<open>What the monitor is meant to do\<close>

text \<open>
  The description of \<^verbatim>\<open>check_thresholds\<close>, written down on its own to compare the code
  with: the event of a rule that fires, and the calls one location gives rise to, namely
  for each rule of the location, in the order of the rules, whose parameter is in the
  \<^verbatim>\<open>current\<close> part of the weather with a value for which the comparison of the rule
  holds, one call of every registered callback. A rule is a rule of the location that
  was given to \<^verbatim>\<open>set_threshold\<close> with it.
\<close>

definition event_of :: "string \<Rightarrow> threshold \<Rightarrow> json \<Rightarrow> event" where
  "event_of location th v =
     \<lparr>ev_location = location, ev_parameter = th_parameter th, ev_value = v,
      ev_threshold = th_value th, ev_operator = th_operator th\<rparr>"

definition registered :: "monitor \<Rightarrow> nat list" where
  "registered m =
     (case map_of (callbacks m) ''threshold_exceeded'' of None \<Rightarrow> [] | Some cbs \<Rightarrow> cbs)"

definition rule_calls :: "nat list \<Rightarrow> string \<Rightarrow> (string \<times> json) list \<Rightarrow> threshold \<Rightarrow> (nat \<times> event) list" where
  "rule_calls cbs location current th =
     (if th_location th = location
      then (case map_of current (th_parameter th) of
              None \<Rightarrow> []
            | Some v \<Rightarrow>
                if check_condition v (th_operator th) (th_value th) = Inr True
                then map (\<lambda>callback. (callback, event_of location th v)) cbs
                else [])
      else [])"

definition expected_calls ::
  "nat list \<Rightarrow> string \<Rightarrow> (string \<times> json) list \<Rightarrow> (string \<times> threshold) list \<Rightarrow> (nat \<times> event) list" where
  "expected_calls cbs location current rules =
     concat (map (\<lambda>(key, th). rule_calls cbs location current th) rules)"

text \<open>One location of the described run: the weather is fetched once; when the fetch
  returns an object with an object under \<^verbatim>\<open>current\<close>, the expected calls are made.\<close>

definition expected_step :: "env \<Rightarrow> monitor \<Rightarrow> string \<Rightarrow> monitor" where
  "expected_step E m location =
     (case get_current_weather E (mon_client m) (Some location) None None METRIC ''en'' of
        (Inr (JObj kvs), c1) \<Rightarrow>
          (case map_of kvs ''current'' of
             Some (JObj current) \<Rightarrow>
               m\<lparr>mon_client := c1,
                 fired := fired m @ expected_calls (registered m) location current (thresholds m)\<rparr>
           | _ \<Rightarrow> m\<lparr>mon_client := c1\<rparr>)
      | (_, c1) \<Rightarrow> m\<lparr>mon_client := c1\<rparr>)"

fun expected_run :: "env \<Rightarrow> monitor \<Rightarrow> string list \<Rightarrow> monitor" where
  "expected_run E m [] = m"
| "expected_run E m (location # rest) = expected_run E (expected_step E m location) rest"

section \<open>Auxiliary notions\<close>

text \<open>The request a weather operation sends: a \<^verbatim>\<open>GET\<close> with query parameters and no
  body, with the client's base URL, timeout and TLS flag.\<close>

definition bare_request :: "client \<Rightarrow> string \<Rightarrow> params \<Rightarrow> request" where
  "bare_request s ep ps =
     \<lparr>req_method = ''GET'', req_base = base_url (config s), req_endpoint = ep,
      req_params = Some ps, req_json = None, req_timeout = timeout (config s),
      req_verify = verify_ssl (config s)\<rparr>"

text \<open>What the batch stores for a call: the data it returned, or the marker of the
  error it raised.\<close>

definition outcome_value :: "error + json \<Rightarrow> json" where
  "outcome_value r = (case r of Inr data \<Rightarrow> data | Inl e \<Rightarrow> error_marker e)"

text \<open>The client after the calls for the given locations have been made one after the
  other: the state in which the batch makes its next call.\<close>

fun state_after :: "env \<Rightarrow> client \<Rightarrow> string \<Rightarrow> string list \<Rightarrow> client" where
  "state_after E s request_type [] = s"
| "state_after E s request_type (location # locations) =
     state_after E (snd (batch_call E s request_type location)) request_type locations"

section \<open>Example worlds\<close>

text \<open>Stand-ins for the library functions, used where a property is evaluated on a
  concrete input: the digest of a byte string is the byte string itself, a scalar is
  rendered without escapes (a float as a placeholder), the keyed digest is the key and
  the message written in hex digits, and \<^verbatim>\<open>int\<close> accepts nothing.\<close>

fun demo_atom :: "pval \<Rightarrow> string" where
  "demo_atom PNone = ''null''"
| "demo_atom (PStr s) = [CHR 0x22] @ s @ [CHR 0x22]"
| "demo_atom (PInt i) = str_int i"
| "demo_atom (PFloat x) = ''<float>''"

definition hex_of :: "string \<Rightarrow> string" where
  "hex_of s =
     concat (map (\<lambda>c. [''0123456789abcdef'' ! ((of_char c :: nat) div 16),
                         ''0123456789abcdef'' ! ((of_char c :: nat) mod 16)]) s)"

definition demo_lib :: pylib where
  "demo_lib = \<lparr>md5_hex = (\<lambda>b. b), json_atom = demo_atom,
                hmac_sha256_hex = (\<lambda>k m. hex_of (k @ m)), int_of_str = (\<lambda>a. None)\<rparr>"

text \<open>A client as \<^verbatim>\<open>WeatherClient('k-123')\<close> builds it, and a world whose server knows
  three cities and answers 404 for any other and 400 when no city is given.\<close>

definition demo_client :: client where
  "demo_client = \<lparr>config = \<lparr>api_key = ''k-123'', base_url = ''https://api.globalweather.com/v1'',
                                     timeout = 30, max_retries = 3, verify_ssl = True,
                                     debug = False\<rparr>,
                       cache = Map.empty, ticks = 0, sent = []\<rparr>"

definition ok_response :: "json \<Rightarrow> net_result" where
  "ok_response j = Returns \<lparr>status_code = 200, header = (\<lambda>h. None), http_error_text = [],
                             body = Inr j\<rparr>"

definition status_response :: "int \<Rightarrow> string \<Rightarrow> net_result" where
  "status_response code txt =
     Returns \<lparr>status_code = code, header = (\<lambda>h. None), http_error_text = txt,
              body = Inl ''Expecting value: line 1 column 1 (char 0)''\<rparr>"

definition weather_of :: "real \<Rightarrow> json" where
  "weather_of t =
     JObj [(''current'', JObj [(''temperature'', JNum t), (''humidity'', JNum 40)])]"

definition demo_server :: "request \<Rightarrow> net_result" where
  "demo_server rq =
     (case req_params rq of
        None \<Rightarrow> status_response 400 ''400 Client Error''
      | Some ps \<Rightarrow>
          (case map_of ps ''city'' of
             Some (PStr c) \<Rightarrow>
               if c = ''London'' then ok_response (weather_of 31)
               else if c = ''Paris'' then ok_response (weather_of 31)
               else if c = ''Paris:FR'' then ok_response (weather_of 29)
               else status_response 404 ''404 Client Error''
           | _ \<Rightarrow> status_response 400 ''400 Client Error''))"

definition demo_env :: env where
  "demo_env = \<lparr>lib = demo_lib, clock = (\<lambda>n. 1000 + real n),
                net = (\<lambda>rqs. case rqs of [] \<Rightarrow> Raises [] | _ \<Rightarrow> demo_server (last rqs)),
                out_of_time = (\<lambda>n. False)\<rparr>"

text \<open>A monitor on the example client with one callback registered.\<close>

definition demo_monitor :: monitor where
  "demo_monitor = on_threshold_exceeded (WeatherMonitor_init demo_client) 7"

text \<open>Monitors on the example client: one with five well-formed rules and a second
  callback; one for London with a well-formed rule, a rule for a parameter the weather
  does not have and a rule for one it has, the last two with an operator that does not
  exist; one with the rule for the absent parameter only; and one that watches Paris
  and a location whose name begins with \<^verbatim>\<open>Paris:\<close>.\<close>

definition watch_monitor :: monitor where
  "watch_monitor =
     set_threshold
       (set_threshold
          (set_threshold
             (set_threshold
                (set_threshold (on_threshold_exceeded demo_monitor 9)
                   ''temperature'' ''>'' 30 ''London'')
                ''wind'' ''>'' 5 ''London'')
             ''humidity'' ''<'' 10 ''London'')
          ''temperature'' ''>='' 29 ''Paris:FR'')
       ''temperature'' ''<'' 0 ''Oslo''"

definition unchecked_monitor :: monitor where
  "unchecked_monitor =
     set_threshold
       (set_threshold (set_threshold demo_monitor ''humidity'' ''>'' 50 ''London'')
          ''wind'' ''=>'' 5 ''London'')
       ''temperature'' ''=>'' 30 ''London''"

definition absent_monitor :: monitor where
  "absent_monitor = set_threshold demo_monitor ''wind'' ''=>'' 5 ''London''"

definition overlap_monitor :: monitor where
  "overlap_monitor =
     set_threshold (set_threshold demo_monitor ''humidity'' ''>'' 50 ''Paris'')
       ''temperature'' ''>'' 30 ''Paris:FR''"

section \<open>Cache properties\<close>

lemma sort_key_same_items:
  fixes ps qs :: "('k::linorder \<times> 'v) list"
  assumes "distinct (map fst ps)" "distinct (map fst qs)" "map_of ps = map_of qs"
  shows "sort_key fst ps = sort_key fst qs"
proof -
  have set_eq: "set ps = set qs"
  proof -
    have "\<And>k v. ((k, v) \<in> set ps) = ((k, v) \<in> set qs)"
      using assms by (metis map_of_eq_Some_iff)
    then show ?thesis by auto
  qed
  have dps: "distinct ps" and dqs: "distinct qs"
    using assms(1,2) by (simp_all add: distinct_map)
  have "mset ps = mset qs"
    using set_eq dps dqs by (simp add: set_eq_iff_mset_eq_distinct)
  then have m: "mset ps = mset (sort_key fst qs)" by simp
  have inj: "inj_on fst (set ps)"
    using assms(1) by (simp add: distinct_map)
  show ?thesis
    by (rule sort_key_inj_key_eq [OF m inj]) simp
qed

text \<open>
  C6. The cache key depends on the endpoint and on the bindings of the parameter dict
  only, not on the order in which the bindings were inserted: two dicts (association
  lists with distinct keys) that bind the same keys to the same values get the same key.
\<close>

theorem cache_key_order_independent:
  assumes "distinct (map fst ps)" and "distinct (map fst qs)"
    and "map_of ps = map_of qs"
  shows "get_cache_key L endpoint ps = get_cache_key L endpoint qs"
  using sort_key_same_items [OF assms]
  by (simp add: get_cache_key_def json_dumps_sorted_def)

theorem cache_key_order_independent_witness:
  "get_cache_key demo_lib ''/weather/current'' [(''a'', PInt 1), (''b'', PInt 2)]
     = get_cache_key demo_lib ''/weather/current'' [(''b'', PInt 2), (''a'', PInt 1)]"
  using cache_key_order_independent [of "[(''a'', PInt 1), (''b'', PInt 2)]"
      "[(''b'', PInt 2), (''a'', PInt 1)]" demo_lib "''/weather/current''"]
  by (simp add: fun_eq_iff)

text \<open>
  C5. A cache read returns the stored value when the age of the entry, the clock reading
  minus the stored timestamp, is below the time to live of 300 seconds, and \<^verbatim>\<open>None\<close>
  otherwise or when there is no entry. A value written at \<open>t0\<close> (the sweep of the same
  write reading the clock less than 300 seconds later) is returned unchanged by a read at
  any time before \<open>t0 + 300\<close> and is a miss at or after \<open>t0 + 300\<close>.
\<close>

theorem cache_get_expiry:
  "(c key = Some (v, created_at) \<longrightarrow>
      get_from_cache c key now = (if now - created_at < cache_ttl then v else JNull))
   \<and> (c key = None \<longrightarrow> get_from_cache c key now = JNull)
   \<and> (current_time - t0 < cache_ttl \<longrightarrow>
        (now < t0 + cache_ttl \<longrightarrow>
           get_from_cache (save_to_cache c key v t0 current_time) key now = v)
      \<and> (t0 + cache_ttl \<le> now \<longrightarrow>
           get_from_cache (save_to_cache c key v t0 current_time) key now = JNull))
   \<and> cache_ttl = 300"
  by (auto simp: get_from_cache_def save_to_cache_def cache_ttl_def)

theorem cache_get_expiry_witness:
  "get_from_cache [''k'' \<mapsto> (JStr ''sunny'', 1000)] ''k'' 1299 = JStr ''sunny''
   \<and> get_from_cache [''k'' \<mapsto> (JStr ''sunny'', 1000)] ''k'' 1300 = JNull
   \<and> get_from_cache (save_to_cache Map.empty ''k'' (JStr ''sunny'') 1000 1001) ''k'' 1299
       = JStr ''sunny''
   \<and> get_from_cache (save_to_cache Map.empty ''k'' (JStr ''sunny'') 1000 1001) ''k'' 1300
       = JNull"
proof -
  have fresh: "(1001::real) - 1000 < cache_ttl" "(1299::real) < 1000 + cache_ttl"
    "\<not> (1300::real) - 1000 < cache_ttl" "(1000::real) + cache_ttl \<le> 1300"
    "(1299::real) - 1000 < cache_ttl"
    by (simp_all add: cache_ttl_def)
  have stored: "[''k'' \<mapsto> (JStr ''sunny'', 1000::real)] ''k'' = Some (JStr ''sunny'', 1000)"
    by simp
  note a = cache_get_expiry [of "[''k'' \<mapsto> (JStr ''sunny'', 1000)]" "''k''" "JStr ''sunny''"
      1000 1299 1001 1000]
  note b = cache_get_expiry [of "[''k'' \<mapsto> (JStr ''sunny'', 1000)]" "''k''" "JStr ''sunny''"
      1000 1300 1001 1000]
  from a stored fresh
  have 1: "get_from_cache [''k'' \<mapsto> (JStr ''sunny'', 1000)] ''k'' 1299 = JStr ''sunny''"
    by presburger
  from b stored fresh
  have 2: "get_from_cache [''k'' \<mapsto> (JStr ''sunny'', 1000)] ''k'' 1300 = JNull"
    by presburger
  from cache_get_expiry [of Map.empty "''k''" "JStr ''sunny''" 1000 1299 1001 1000] fresh
  have 3: "get_from_cache (save_to_cache Map.empty ''k'' (JStr ''sunny'') 1000 1001) ''k'' 1299
       = JStr ''sunny''"
    by blast
  from cache_get_expiry [of Map.empty "''k''" "JStr ''sunny''" 1000 1300 1001 1000] fresh
  have 4: "get_from_cache (save_to_cache Map.empty ''k'' (JStr ''sunny'') 1000 1001) ''k'' 1300
       = JNull"
    by blast
  from 1 2 3 4 show ?thesis by blast
qed

text \<open>
  C7. After a write the cache holds the value under the key with the timestamp read at the
  write (the second clock reading of the write being less than 300 seconds later), and
  every entry still in the cache has an age below 300 seconds at the time of the sweep:
  an older entry under another key is gone, a younger one is kept as it was.
\<close>

theorem save_to_cache_sweep:
  "(current_time - t_store < cache_ttl \<longrightarrow>
      save_to_cache c key v t_store current_time key = Some (v, t_store))
   \<and> (\<forall>k d ts. save_to_cache c key v t_store current_time k = Some (d, ts)
         \<longrightarrow> current_time - ts < cache_ttl)
   \<and> (\<forall>k d ts. k \<noteq> key \<longrightarrow> c k = Some (d, ts) \<longrightarrow>
         save_to_cache c key v t_store current_time k
           = (if current_time - ts < cache_ttl then Some (d, ts) else None))
   \<and> (\<forall>k. k \<noteq> key \<longrightarrow> c k = None \<longrightarrow> save_to_cache c key v t_store current_time k = None)"
  by (auto simp: save_to_cache_def split: option.splits)

theorem save_to_cache_sweep_witness:
  "save_to_cache [''old'' \<mapsto> (JNum 1, 600), ''new'' \<mapsto> (JNum 2, 800)] ''k'' (JNum 3) 1000 1000 ''k''
      = Some (JNum 3, 1000)
   \<and> save_to_cache [''old'' \<mapsto> (JNum 1, 600), ''new'' \<mapsto> (JNum 2, 800)] ''k'' (JNum 3) 1000 1000 ''old''
      = None
   \<and> save_to_cache [''old'' \<mapsto> (JNum 1, 600), ''new'' \<mapsto> (JNum 2, 800)] ''k'' (JNum 3) 1000 1000 ''new''
      = Some (JNum 2, 800)
   \<and> (1000::real) - 800 < cache_ttl"
  using save_to_cache_sweep [of 1000 1000 "[''old'' \<mapsto> (JNum 1, 600), ''new'' \<mapsto> (JNum 2, 800)]" "''k''" "JNum 3"]
  by (simp add: cache_ttl_def)

section \<open>Transport properties\<close>

lemma sent_save_to_cache_io: "sent (save_to_cache_io E s k d) = sent s"
  by (simp add: save_to_cache_io_def read_clock_def Let_def split: prod.splits)

lemma get_from_cache_io_empty: "cache s = Map.empty \<Longrightarrow> get_from_cache_io E s k = (JNull, s)"
  by (simp add: get_from_cache_io_def)

lemma perform_request_sent:
  "sent (snd (perform_request E s m ep ps d uc k)) =
     sent s @ [\<lparr>req_method = m, req_base = base_url (config s), req_endpoint = ep,
                req_params = ps, req_json = d, req_timeout = timeout (config s),
                req_verify = verify_ssl (config s)\<rparr>]"
  by (simp add: perform_request_def Let_def sent_save_to_cache_io
      split: net_result.splits option.splits sum.splits)

lemma get_from_cache_io_state:
  "get_from_cache_io E s k = (x, s') \<Longrightarrow>
     sent s' = sent s \<and> config s' = config s \<and> cache s' = cache s"
  by (auto simp: get_from_cache_io_def read_clock_def Let_def split: prod.splits if_splits)

lemma make_request_once_grows:
  "\<exists>ys. sent (snd (make_request_once E s m ep ps d uc)) = sent s @ ys"
  unfolding make_request_once_def Let_def
  by (auto simp: perform_request_sent split: prod.splits dest: get_from_cache_io_state)

lemma make_request_tries_grows:
  "\<exists>ys. sent (snd (make_request_tries n E s m ep ps d uc)) = sent s @ ys"
proof (induction n arbitrary: s)
  case 0
  show ?case using make_request_once_grows [of E s m ep ps d uc] by simp
next
  case (Suc n)
  obtain r s1 where once: "make_request_once E s m ep ps d uc = (r, s1)"
    by (cases "make_request_once E s m ep ps d uc")
  from make_request_once_grows [of E s m ep ps d uc] once
  obtain ys where ys: "sent s1 = sent s @ ys" by auto
  from Suc.IH [of s1] obtain zs where
    zs: "sent (snd (make_request_tries n E s1 m ep ps d uc)) = sent s1 @ zs" by auto
  show ?case
    using once ys zs
    by (auto simp: Let_def split: sum.splits error.splits)
qed

lemma make_request_once_empty_cache:
  assumes "cache s = Map.empty"
  shows "sent (snd (make_request_once E s m ep ps d uc)) =
     sent s @ [\<lparr>req_method = m, req_base = base_url (config s), req_endpoint = ep,
                req_params = ps, req_json = d, req_timeout = timeout (config s),
                req_verify = verify_ssl (config s)\<rparr>]"
  using assms
  by (simp add: make_request_once_def Let_def get_from_cache_io_empty perform_request_sent)

lemma make_request_empty_cache:
  assumes "cache s = Map.empty"
  shows "\<exists>ys. sent (snd (make_request E s m ep ps d uc)) =
     sent s @ \<lparr>req_method = m, req_base = base_url (config s), req_endpoint = ep,
                req_params = ps, req_json = d, req_timeout = timeout (config s),
                req_verify = verify_ssl (config s)\<rparr> # ys"
proof -
  obtain r s1 where once: "make_request_once E s m ep ps d uc = (r, s1)"
    by (cases "make_request_once E s m ep ps d uc")
  from make_request_once_empty_cache [OF assms, of E m ep ps d uc] once
  have s1: "sent s1 = sent s @ [\<lparr>req_method = m, req_base = base_url (config s), req_endpoint = ep,
                req_params = ps, req_json = d, req_timeout = timeout (config s),
                req_verify = verify_ssl (config s)\<rparr>]" by simp
  from make_request_tries_grows [of 1 E s1 m ep ps d uc] obtain zs where
    zs: "sent (snd (make_request_tries 1 E s1 m ep ps d uc)) = sent s1 @ zs" by auto
  show ?thesis
    unfolding make_request_def numeral_2_eq_2
    using once s1 zs
    by (auto simp: Let_def One_nat_def split: sum.splits error.splits)
qed

section \<open>Properties of the weather operations\<close>

lemmas demo_defs = demo_client_def demo_env_def demo_server_def ok_response_def
  status_response_def weather_of_def demo_lib_def

lemmas run_defs = get_current_weather_def get_forecast_def get_historical_weather_def
  get_alerts_def make_request_def make_request_once_def perform_request_def
  get_from_cache_io_def save_to_cache_io_def read_clock_def add_location_def
  get_cache_key_def json_dumps_sorted_def encode_def utf8_char_def get_from_cache_def
  save_to_cache_def cache_ttl_def dom_def Let_def numeral_2_eq_2

text \<open>
  C9. A call of \<^verbatim>\<open>get_current_weather\<close> with no named location (\<^verbatim>\<open>None\<close> or the empty
  string) in which the latitude or the longitude is 0 raises the \<^verbatim>\<open>ValueError\<close>
  ``Either location or coordinates required'' and leaves the client as it was: no request
  has been sent. The presence test is \<^verbatim>\<open>lat and lon\<close>, which is false for 0.
\<close>

theorem zero_coordinate_rejected:
  assumes "location = None \<or> location = Some []" and "lat = Some 0 \<or> lon = Some 0"
  shows "get_current_weather E s location lat lon units lang =
           (Inl (ValueError ''Either location or coordinates required''), s)"
  using assms by (auto simp: get_current_weather_def)

theorem zero_coordinate_rejected_witness:
  "get_current_weather demo_env demo_client None (Some 0) (Some 0) METRIC ''en'' =
     (Inl (ValueError ''Either location or coordinates required''), demo_client)
   \<and> get_current_weather demo_env demo_client (Some []) (Some 51.5) (Some 0) METRIC ''en'' =
     (Inl (ValueError ''Either location or coordinates required''), demo_client)"
  using zero_coordinate_rejected [of None "Some 0" "Some 0" demo_env demo_client METRIC "''en''"]
    zero_coordinate_rejected [of "Some []" "Some 51.5" "Some 0" demo_env demo_client METRIC "''en''"]
  by simp

text \<open>
  C1. Only \<^verbatim>\<open>get_current_weather\<close> rejects a call that has neither a location nor
  coordinates: it raises \<^verbatim>\<open>ValueError\<close> and sends nothing. \<^verbatim>\<open>get_forecast\<close>,
  \<^verbatim>\<open>get_historical_weather\<close> and \<^verbatim>\<open>get_alerts\<close> have no such check: called the same
  way on a client with an empty cache they send a request with \<^verbatim>\<open>lat\<close> and \<^verbatim>\<open>lon\<close> set
  to \<^verbatim>\<open>None\<close>, and in the example world what they raise is the \<^verbatim>\<open>WeatherAPIError\<close> made
  from the server's answer 400.
\<close>

theorem location_check_only_in_current_weather:
  "get_current_weather E s None None None units lang =
     (Inl (ValueError ''Either location or coordinates required''), s)
   \<and> (\<exists>ys. sent (snd (get_forecast E (s\<lparr>cache := Map.empty\<rparr>) None None None 5 units)) =
          sent s @ bare_request s ''/weather/forecast''
            [(''days'', PInt 5), (''units'', PStr (units_value units)),
             (''lat'', PNone), (''lon'', PNone)] # ys)
   \<and> (\<exists>ys. sent (snd (get_historical_weather E (s\<lparr>cache := Map.empty\<rparr>) date None None None units)) =
          sent s @ bare_request s ''/weather/historical''
            [(''date'', PStr (date_str date)), (''units'', PStr (units_value units)),
             (''lat'', PNone), (''lon'', PNone)] # ys)
   \<and> (\<exists>ys. sent (snd (get_alerts E (s\<lparr>cache := Map.empty\<rparr>) None None None None)) =
          sent s @ bare_request s ''/weather/alerts'' [(''lat'', PNone), (''lon'', PNone)] # ys)
   \<and> fst (get_forecast demo_env demo_client None None None 5 METRIC) =
       Inl (WeatherAPIError ''Request failed: 400 Client Error'')
   \<and> fst (get_historical_weather demo_env demo_client (DateStr ''2024-01-15'') None None None METRIC) =
       Inl (WeatherAPIError ''Request failed: 400 Client Error'')
   \<and> fst (get_alerts demo_env demo_client None None None None) =
       Inl (WeatherAPIError ''Request failed: 400 Client Error'')"
proof -
  have 1: "get_current_weather E s None None None units lang =
     (Inl (ValueError ''Either location or coordinates required''), s)"
    by (simp add: get_current_weather_def)
  have 2: "\<exists>ys. sent (snd (get_forecast E (s\<lparr>cache := Map.empty\<rparr>) None None None 5 units)) =
          sent s @ bare_request s ''/weather/forecast''
            [(''days'', PInt 5), (''units'', PStr (units_value units)),
             (''lat'', PNone), (''lon'', PNone)] # ys"
    using make_request_empty_cache [of "s\<lparr>cache := Map.empty\<rparr>" E "''GET''" "''/weather/forecast''"
        "Some [(''days'', PInt 5), (''units'', PStr (units_value units)), (''lat'', PNone), (''lon'', PNone)]"
        None True]
    by (simp add: get_forecast_def add_location_def bare_request_def)
  have 3: "\<exists>ys. sent (snd (get_historical_weather E (s\<lparr>cache := Map.empty\<rparr>) date None None None units)) =
          sent s @ bare_request s ''/weather/historical''
            [(''date'', PStr (date_str date)), (''units'', PStr (units_value units)),
             (''lat'', PNone), (''lon'', PNone)] # ys"
    using make_request_empty_cache [of "s\<lparr>cache := Map.empty\<rparr>" E "''GET''" "''/weather/historical''"
        "Some [(''date'', PStr (date_str date)), (''units'', PStr (units_value units)), (''lat'', PNone), (''lon'', PNone)]"
        None True]
    by (simp add: get_historical_weather_def add_location_def bare_request_def)
  have 4: "\<exists>ys. sent (snd (get_alerts E (s\<lparr>cache := Map.empty\<rparr>) None None None None)) =
          sent s @ bare_request s ''/weather/alerts'' [(''lat'', PNone), (''lon'', PNone)] # ys"
    using make_request_empty_cache [of "s\<lparr>cache := Map.empty\<rparr>" E "''GET''" "''/weather/alerts''"
        "Some [(''lat'', PNone), (''lon'', PNone)]" None True]
    by (simp add: get_alerts_def add_location_def bare_request_def)
  have 5: "fst (get_forecast demo_env demo_client None None None 5 METRIC) =
       Inl (WeatherAPIError ''Request failed: 400 Client Error'')"
    by (simp add: demo_defs run_defs)
  have 6: "fst (get_historical_weather demo_env demo_client (DateStr ''2024-01-15'') None None None METRIC) =
       Inl (WeatherAPIError ''Request failed: 400 Client Error'')"
    by (simp add: demo_defs run_defs)
  have 7: "fst (get_alerts demo_env demo_client None None None None) =
       Inl (WeatherAPIError ''Request failed: 400 Client Error'')"
    by (simp add: demo_defs run_defs)
  from 1 2 3 4 5 6 7 show ?thesis by blast
qed

section \<open>Properties of the batch request\<close>

lemma batch_loop_append:
  "batch_loop E s rt acc (xs @ ys) =
     (case batch_loop E s rt acc xs of
        (Inr acc1, s1) \<Rightarrow> batch_loop E s1 rt acc1 ys
      | (Inl e, s1) \<Rightarrow> (Inl e, s1))"
  by (induction xs arbitrary: s acc) (auto split: prod.splits sum.splits)

lemma batch_loop_invalid_type:
  assumes "rt \<noteq> ''current''" "rt \<noteq> ''forecast''" "locs \<noteq> []"
  shows "batch_loop E s rt acc locs = (Inl (ValueError (''Invalid request type: '' @ rt)), s)"
  using assms by (cases locs) (simp_all add: batch_call_def)

text \<open>
  C10. \<^verbatim>\<open>batch_weather_request\<close> catches \<^verbatim>\<open>WeatherAPIError\<close> only. With a request type
  other than \<^verbatim>\<open>current\<close> and \<^verbatim>\<open>forecast\<close> and at least one location it raises the
  \<^verbatim>\<open>ValueError\<close> for the request type at the first location, before any call. When the
  call for a location raises an exception that is not a \<^verbatim>\<open>WeatherAPIError\<close>, after the
  locations before it have been collected, the batch raises that exception: the results
  collected so far are not returned and the remaining locations are not called.
\<close>

theorem batch_propagates_other_errors:
  "(locations \<noteq> [] \<and> request_type \<noteq> ''current'' \<and> request_type \<noteq> ''forecast'' \<longrightarrow>
      batch_weather_request E s locations request_type =
        (Inl (ValueError (''Invalid request type: '' @ request_type)), s))
   \<and> (batch_weather_request E s before request_type = (Inr results, s1) \<and>
       batch_call E s1 request_type location = (Inl e, s2) \<and> \<not> is_WeatherAPIError e \<longrightarrow>
      batch_weather_request E s (before @ location # rest) request_type = (Inl e, s2))"
  by (auto simp: batch_weather_request_def batch_loop_append batch_loop_invalid_type)

lemma batch_loop_run:
  assumes H: "\<forall>pre l post. locs = pre @ l # post \<longrightarrow>
      (\<forall>e. fst (batch_call E (state_after E s rt pre) rt l) = Inl e \<longrightarrow> is_WeatherAPIError e)"
  shows "\<exists>results. batch_loop E s rt acc locs = (Inr results, state_after E s rt locs)
        \<and> set (map fst results) = set (map fst acc) \<union> set locs
        \<and> (\<forall>l. l \<notin> set locs \<longrightarrow> map_of results l = map_of acc l)
        \<and> (\<forall>pre l post. locs = pre @ l # post \<and> l \<notin> set post \<longrightarrow>
              map_of results l =
                Some (outcome_value (fst (batch_call E (state_after E s rt pre) rt l))))"
  using H
proof (induction locs arbitrary: s acc)
  case Nil
  show ?case by simp
next
  case (Cons l0 ls)
  obtain r s1 where call: "batch_call E s rt l0 = (r, s1)"
    by (cases "batch_call E s rt l0")
  let ?acc = "AList.update l0 (outcome_value r) acc"
  have first: "\<forall>e. r = Inl e \<longrightarrow> is_WeatherAPIError e"
    using Cons.prems [rule_format, of "[]" l0 ls] call by simp
  have step: "batch_loop E s rt acc (l0 # ls) = batch_loop E s1 rt ?acc ls"
    using call first by (cases r) (simp_all add: outcome_value_def)
  have after: "state_after E s rt (l0 # pre) = state_after E s1 rt pre" for pre
    using call by simp
  have H': "\<forall>pre l post. ls = pre @ l # post \<longrightarrow>
      (\<forall>e. fst (batch_call E (state_after E s1 rt pre) rt l) = Inl e \<longrightarrow> is_WeatherAPIError e)"
  proof (intro allI impI)
    fix pre l post e
    assume "ls = pre @ l # post" and e: "fst (batch_call E (state_after E s1 rt pre) rt l) = Inl e"
    then have "l0 # ls = (l0 # pre) @ l # post" by simp
    from Cons.prems [rule_format, OF this] e after [of pre]
    show "is_WeatherAPIError e" by simp
  qed
  from Cons.IH [OF H', of ?acc]
  obtain results where
    run: "batch_loop E s1 rt ?acc ls = (Inr results, state_after E s1 rt ls)"
    and keys: "set (map fst results) = set (map fst ?acc) \<union> set ls"
    and old: "\<forall>l. l \<notin> set ls \<longrightarrow> map_of results l = map_of ?acc l"
    and new: "\<forall>pre l post. ls = pre @ l # post \<and> l \<notin> set post \<longrightarrow>
              map_of results l =
                Some (outcome_value (fst (batch_call E (state_after E s1 rt pre) rt l)))"
    by blast
  have 1: "batch_loop E s rt acc (l0 # ls) = (Inr results, state_after E s rt (l0 # ls))"
    using step run after [of ls] by simp
  have 2: "set (map fst results) = set (map fst acc) \<union> set (l0 # ls)"
    using keys by (auto simp: update_keys)
  have 3: "\<forall>l. l \<notin> set (l0 # ls) \<longrightarrow> map_of results l = map_of acc l"
    using old by (simp add: update_conv')
  have 4: "\<forall>pre l post. l0 # ls = pre @ l # post \<and> l \<notin> set post \<longrightarrow>
              map_of results l =
                Some (outcome_value (fst (batch_call E (state_after E s rt pre) rt l)))"
  proof (intro allI impI)
    fix pre l post
    assume a: "l0 # ls = pre @ l # post \<and> l \<notin> set post"
    show "map_of results l =
            Some (outcome_value (fst (batch_call E (state_after E s rt pre) rt l)))"
    proof (cases pre)
      case Nil
      with a have "l = l0" "ls = post" "l0 \<notin> set ls" by simp_all
      with old have "map_of results l0 = map_of ?acc l0" by simp
      with Nil call \<open>l = l0\<close> show ?thesis by (simp add: update_conv')
    next
      case (Cons p pre')
      with a have "p = l0" "ls = pre' @ l # post" by simp_all
      with new a have "map_of results l =
          Some (outcome_value (fst (batch_call E (state_after E s1 rt pre') rt l)))" by blast
      with Cons \<open>p = l0\<close> after [of pre'] show ?thesis by simp
    qed
  qed
  from 1 2 3 4 show ?case by blast
qed

text \<open>
  C4 (amended). Let every call that the batch makes for a location, in the state the
  calls before it have left, either return or raise a \<^verbatim>\<open>WeatherAPIError\<close>. Then
  \<^verbatim>\<open>batch_weather_request\<close> returns a dictionary without raising, having made the call
  for every location, one after the other. The keys of the dictionary are the input
  locations, and under each location stands what the call for it has produced (the last
  call, when the location is listed more than once): the weather data the call returned,
  or the marker \<^verbatim>\<open>{"error": str(e)}\<close> of the error \<open>e\<close> it raised.
\<close>

theorem batch_isolates_api_errors:
  assumes "\<forall>pre l post. locations = pre @ l # post \<longrightarrow>
      (\<forall>e. fst (batch_call E (state_after E s request_type pre) request_type l) = Inl e
            \<longrightarrow> is_WeatherAPIError e)"
  shows "\<exists>results.
          batch_weather_request E s locations request_type =
            (Inr results, state_after E s request_type locations)
        \<and> set (map fst results) = set locations
        \<and> (\<forall>pre l post. locations = pre @ l # post \<and> l \<notin> set post \<longrightarrow>
              map_of results l =
                Some (outcome_value
                        (fst (batch_call E (state_after E s request_type pre) request_type l))))"
  using batch_loop_run [OF assms, of "[]"]
  by (auto simp: batch_weather_request_def)

lemma perform_request_api_error:
  assumes tame: "\<forall>rqs r a. net E rqs = Returns r \<longrightarrow> status_code r = 429 \<longrightarrow>
                   header r ''Retry-After'' = Some a \<longrightarrow> int_of_str (lib E) a \<noteq> None"
    and res: "perform_request E s m ep ps d uc k = (Inl e, s')"
  shows "is_WeatherAPIError e"
proof (cases "net E (sent s @ [\<lparr>req_method = m, req_base = base_url (config s), req_endpoint = ep,
                req_params = ps, req_json = d, req_timeout = timeout (config s),
                req_verify = verify_ssl (config s)\<rparr>])")
  case (Raises msg)
  with res show ?thesis by (auto simp: perform_request_def Let_def)
next
  case (Returns r)
  show ?thesis
  proof (cases "status_code r = 429")
    case True
    show ?thesis
    proof (cases "header r ''Retry-After''")
      case None
      with Returns True res show ?thesis by (auto simp: perform_request_def Let_def)
    next
      case (Some a)
      from tame Returns True Some have "int_of_str (lib E) a \<noteq> None" by blast
      then obtain n where "int_of_str (lib E) a = Some n" by blast
      with Returns True Some res show ?thesis by (auto simp: perform_request_def Let_def)
    qed
  next
    case False
    with Returns res show ?thesis
      by (auto simp: perform_request_def Let_def split: if_splits sum.splits)
  qed
qed

lemma make_request_once_api_error:
  assumes tame: "\<forall>rqs r a. net E rqs = Returns r \<longrightarrow> status_code r = 429 \<longrightarrow>
                   header r ''Retry-After'' = Some a \<longrightarrow> int_of_str (lib E) a \<noteq> None"
    and res: "make_request_once E s m ep ps d uc = (Inl e, s')"
  shows "is_WeatherAPIError e"
  using res perform_request_api_error [OF tame]
  unfolding make_request_once_def Let_def
  by (auto split: if_splits prod.splits)

lemma make_request_tries_api_error:
  assumes tame: "\<forall>rqs r a. net E rqs = Returns r \<longrightarrow> status_code r = 429 \<longrightarrow>
                   header r ''Retry-After'' = Some a \<longrightarrow> int_of_str (lib E) a \<noteq> None"
  shows "make_request_tries n E s m ep ps d uc = (Inl e, s') \<Longrightarrow> is_WeatherAPIError e"
proof (induction n arbitrary: s)
  case 0
  then show ?case using make_request_once_api_error [OF tame] by simp
next
  case (Suc n)
  obtain r s1 where once: "make_request_once E s m ep ps d uc = (r, s1)"
    by (cases "make_request_once E s m ep ps d uc")
  show ?case
  proof (cases r)
    case (Inr v)
    with once Suc.prems show ?thesis by (simp add: Let_def)
  next
    case (Inl e1)
    from make_request_once_api_error [OF tame] once Inl have api: "is_WeatherAPIError e1" by blast
    show ?thesis
    proof (cases e1)
      case (RateLimitError msg a)
      with once Inl Suc.prems Suc.IH [of s1] api show ?thesis
        by (auto simp: Let_def split: if_splits)
    qed (use once Inl Suc.prems api in \<open>auto simp: Let_def\<close>)
  qed
qed

lemma batch_call_api_error:
  assumes tame: "\<forall>rqs r a. net E rqs = Returns r \<longrightarrow> status_code r = 429 \<longrightarrow>
                   header r ''Retry-After'' = Some a \<longrightarrow> int_of_str (lib E) a \<noteq> None"
    and rt: "rt = ''current'' \<or> rt = ''forecast''"
    and l: "l \<noteq> []"
    and res: "fst (batch_call E s rt l) = Inl e"
  shows "is_WeatherAPIError e"
proof -
  have "is_WeatherAPIError e" if "fst (make_request E s m ep ps d uc) = Inl e" for m ep ps d uc
    using that make_request_tries_api_error [OF tame, of 2 s m ep ps d uc e]
    by (cases "make_request_tries 2 E s m ep ps d uc") (auto simp: make_request_def)
  with rt l res show ?thesis
    by (auto simp: batch_call_def get_current_weather_def get_forecast_def Let_def)
qed

lemma demo_env_tame:
  "\<forall>rqs r a. net demo_env rqs = Returns r \<longrightarrow> status_code r = 429 \<longrightarrow>
     header r ''Retry-After'' = Some a \<longrightarrow> int_of_str (lib demo_env) a \<noteq> None"
  by (auto simp: demo_env_def demo_server_def ok_response_def status_response_def
      split: list.splits option.splits pval.splits if_splits)

lemmas batch_defs = batch_weather_request_def batch_call_def error_marker_def

theorem batch_isolates_api_errors_witness:
  "\<exists>results.
     batch_weather_request demo_env demo_client [''London'', ''Oslo'', ''Paris''] ''current'' =
       (Inr results, state_after demo_env demo_client ''current'' [''London'', ''Oslo'', ''Paris''])
     \<and> set (map fst results) = {''London'', ''Oslo'', ''Paris''}
     \<and> map_of results ''London'' = Some (weather_of 31)
     \<and> map_of results ''Oslo'' =
         Some (JObj [(''error'', JStr ''Resource not found: /weather/current'')])
     \<and> map_of results ''Paris'' = Some (weather_of 31)"
proof -
  let ?locs = "[''London'', ''Oslo'', ''Paris'']"
  have hyp: "\<forall>pre l post. ?locs = pre @ l # post \<longrightarrow>
      (\<forall>e. fst (batch_call demo_env (state_after demo_env demo_client ''current'' pre)
                 ''current'' l) = Inl e \<longrightarrow> is_WeatherAPIError e)"
  proof (intro allI impI)
    fix pre l post e
    assume split: "?locs = pre @ l # post"
      and res: "fst (batch_call demo_env (state_after demo_env demo_client ''current'' pre)
                 ''current'' l) = Inl e"
    from split have "l \<in> set ?locs" by (metis in_set_conv_decomp)
    then have "l \<noteq> []" by auto
    with batch_call_api_error [OF demo_env_tame _ _ res] show "is_WeatherAPIError e" by simp
  qed
  from batch_isolates_api_errors [OF hyp]
  obtain results where run:
      "batch_weather_request demo_env demo_client ?locs ''current'' =
         (Inr results, state_after demo_env demo_client ''current'' ?locs)"
    and keys: "set (map fst results) = set ?locs"
    and vals: "\<And>pre l post. ?locs = pre @ l # post \<Longrightarrow> l \<notin> set post \<Longrightarrow>
        map_of results l = Some (outcome_value
          (fst (batch_call demo_env (state_after demo_env demo_client ''current'' pre)
             ''current'' l)))"
    by blast
  have 1: "map_of results ''London'' = Some (weather_of 31)"
    using vals [of "[]" "''London''" "[''Oslo'', ''Paris'']"]
    by (simp add: demo_defs run_defs batch_defs outcome_value_def)
  have 2: "map_of results ''Oslo'' =
      Some (JObj [(''error'', JStr ''Resource not found: /weather/current'')])"
    using vals [of "[''London'']" "''Oslo''" "[''Paris'']"]
    by (simp add: demo_defs run_defs batch_defs outcome_value_def)
  have 3: "map_of results ''Paris'' = Some (weather_of 31)"
    using vals [of "[''London'', ''Oslo'']" "''Paris''" "[]"]
    by (simp add: demo_defs run_defs batch_defs outcome_value_def)
  from run keys 1 2 3 show ?thesis by auto
qed

text \<open>The claim as stated, for any failure, does not hold: the call for the empty
  location name raises \<^verbatim>\<open>ValueError\<close>, which the batch does not catch, although the call
  for London succeeds.\<close>

theorem batch_isolation_counterexample:
  "fst (batch_call demo_env demo_client ''current'' ''London'') = Inr (weather_of 31)
   \<and> fst (batch_call demo_env demo_client ''current'' []) =
       Inl (ValueError ''Either location or coordinates required'')
   \<and> fst (batch_weather_request demo_env demo_client [''London'', []] ''current'') =
       Inl (ValueError ''Either location or coordinates required'')"
  by (simp add: demo_defs run_defs batch_defs)

theorem batch_propagates_other_errors_witness:
  "batch_weather_request demo_env demo_client [''London''] ''hourly'' =
     (Inl (ValueError ''Invalid request type: hourly''), demo_client)
   \<and> fst (batch_weather_request demo_env demo_client [''Paris'', [], ''London''] ''current'') =
       Inl (ValueError ''Either location or coordinates required'')"
proof -
  define S where "S = snd (batch_weather_request demo_env demo_client [''Paris''] ''current'')"
  have "fst (batch_weather_request demo_env demo_client [''Paris''] ''current'') =
          Inr [(''Paris'', weather_of 31)]"
    by (simp add: demo_defs run_defs batch_defs)
  then have A: "batch_weather_request demo_env demo_client [''Paris''] ''current'' =
          (Inr [(''Paris'', weather_of 31)], S)"
    unfolding S_def by (metis prod.collapse)
  have B: "batch_call demo_env S ''current'' [] =
          (Inl (ValueError ''Either location or coordinates required''), S)"
    by (simp add: batch_call_def get_current_weather_def)
  have C: "\<not> is_WeatherAPIError (ValueError ''Either location or coordinates required'')"
    by simp
  from batch_propagates_other_errors [of "[''London'']" "''hourly''" demo_env demo_client]
  have 1: "batch_weather_request demo_env demo_client [''London''] ''hourly'' =
     (Inl (ValueError ''Invalid request type: hourly''), demo_client)"
    by simp
  from batch_propagates_other_errors [of "[''London'']" "''current''" demo_env demo_client
      "[''Paris'']" "[(''Paris'', weather_of 31)]" S "[]"
      "ValueError ''Either location or coordinates required''" S "[''London'']"] A B C
  have 2: "batch_weather_request demo_env demo_client [''Paris'', [], ''London''] ''current'' =
     (Inl (ValueError ''Either location or coordinates required''), S)"
    by simp
  from 1 2 show ?thesis by simp
qed

section \<open>Properties of the signature check\<close>

lemma compare_digest_ascii:
  "is_ascii a \<Longrightarrow> compare_digest a b =
     (if is_ascii b then Inr (a = b)
      else Inl (TypeError ''comparing strings with non-ASCII characters is not supported''))"
  by (simp add: compare_digest_def)

text \<open>
  C3 (amended). \<^verbatim>\<open>verify_webhook_signature\<close> returns true exactly when the signature
  equals the hex digest of HMAC-SHA256 keyed by the encoded secret over the payload (an
  ASCII string of hex digits); it is true for the digest itself; for an ASCII signature it
  returns whether the signature equals the digest, so any other ASCII signature yields
  false; and for a signature with a character outside ASCII it raises the \<^verbatim>\<open>TypeError\<close>
  of \<^verbatim>\<open>hmac.compare_digest\<close> instead of returning false.
\<close>

theorem verify_signature_ascii:
  assumes "is_ascii (hmac_sha256_hex L (encode secret) payload)"
  shows "(verify_webhook_signature L payload signature secret = Inr True
            \<longleftrightarrow> signature = hmac_sha256_hex L (encode secret) payload)
       \<and> verify_webhook_signature L payload (hmac_sha256_hex L (encode secret) payload) secret
            = Inr True
       \<and> (is_ascii signature \<longrightarrow>
            verify_webhook_signature L payload signature secret =
              Inr (signature = hmac_sha256_hex L (encode secret) payload))
       \<and> (\<not> is_ascii signature \<longrightarrow>
            verify_webhook_signature L payload signature secret =
              Inl (TypeError ''comparing strings with non-ASCII characters is not supported''))"
  using assms
  by (auto simp: verify_webhook_signature_def Let_def compare_digest_ascii)

lemmas sig_defs = verify_webhook_signature_def compare_digest_def is_ascii_def demo_lib_def
  hex_of_def encode_def utf8_char_def Let_def

theorem verify_signature_ascii_witness:
  "hmac_sha256_hex demo_lib (encode ''s3cret'') ''temp=31'' = ''73336372657474656d703d3331''
   \<and> verify_webhook_signature demo_lib ''temp=31'' ''73336372657474656d703d3331'' ''s3cret''
        = Inr True
   \<and> verify_webhook_signature demo_lib ''temp=32'' ''73336372657474656d703d3331'' ''s3cret''
        = Inr False
   \<and> verify_webhook_signature demo_lib ''temp=31'' ''73336372657474656d703d3330'' ''s3cret''
        = Inr False"
proof -
  have d: "hmac_sha256_hex demo_lib (encode ''s3cret'') ''temp=31'' = ''73336372657474656d703d3331''"
    by (simp add: sig_defs)
  have d': "hmac_sha256_hex demo_lib (encode ''s3cret'') ''temp=32'' = ''73336372657474656d703d3332''"
    by (simp add: sig_defs)
  have a: "is_ascii ''73336372657474656d703d3331''" "is_ascii ''73336372657474656d703d3332''"
    "is_ascii ''73336372657474656d703d3330''"
    by (simp_all add: is_ascii_def)
  from verify_signature_ascii [of demo_lib "''s3cret''" "''temp=31''" "''73336372657474656d703d3331''"] d a
  have 1: "verify_webhook_signature demo_lib ''temp=31'' ''73336372657474656d703d3331'' ''s3cret'' = Inr True"
    by simp
  from verify_signature_ascii [of demo_lib "''s3cret''" "''temp=32''" "''73336372657474656d703d3331''"] d' a
  have 2: "verify_webhook_signature demo_lib ''temp=32'' ''73336372657474656d703d3331'' ''s3cret'' = Inr False"
    by simp
  from verify_signature_ascii [of demo_lib "''s3cret''" "''temp=31''" "''73336372657474656d703d3330''"] d a
  have 3: "verify_webhook_signature demo_lib ''temp=31'' ''73336372657474656d703d3330'' ''s3cret'' = Inr False"
    by simp
  from d 1 2 3 show ?thesis by simp
qed

text \<open>A signature that differs from the digest and does not yield false: the one
  character U+00E9.\<close>

theorem verify_signature_counterexample:
  "[CHR 0xE9] \<noteq> hmac_sha256_hex demo_lib (encode ''s3cret'') ''temp=31''
   \<and> verify_webhook_signature demo_lib ''temp=31'' [CHR 0xE9] ''s3cret'' =
       Inl (TypeError ''comparing strings with non-ASCII characters is not supported'')
   \<and> verify_webhook_signature demo_lib ''temp=31'' [CHR 0xE9] ''s3cret'' \<noteq> Inr False"
  by (simp add: sig_defs)

section \<open>Properties of the monitor\<close>

lemmas mon_defs = check_thresholds_def check_location_def check_condition_def operators_def
  trigger_callbacks_def starts_with_def set_threshold_def on_threshold_exceeded_def
  WeatherMonitor_init_def demo_monitor_def

subsection \<open>The rule loop and invalid operators\<close>

lemma check_rules_append:
  "check_rules m loc cd (xs @ ys) =
     (case check_rules m loc cd xs of
        (Inr u, m1) \<Rightarrow> check_rules m1 loc cd ys
      | (Inl e, m1) \<Rightarrow> (Inl e, m1))"
proof (induction xs arbitrary: m)
  case Nil
  show ?case by simp
next
  case (Cons a xs)
  obtain key th where a: "a = (key, th)" by (cases a)
  show ?case
    unfolding a
    by (simp add: Cons.IH Let_def split: sum.splits bool.splits)
qed

lemma check_condition_value_error:
  "check_condition v operator threshold = Inl (ValueError msg) \<Longrightarrow>
     operator \<notin> set operators \<and> msg = ''Invalid operator: '' @ operator"
  by (auto simp: check_condition_def split: if_splits option.splits)

lemma contains_no_value_error: "contains cd p \<noteq> Inl (ValueError msg)"
  by (cases cd) simp_all

lemma subscript_no_value_error: "subscript cd p \<noteq> Inl (ValueError msg)"
  by (cases cd) (simp_all split: option.splits)

lemma check_rules_value_error:
  "check_rules m loc cd rules = (Inl (ValueError msg), m2) \<Longrightarrow>
     \<exists>(key, th) \<in> set rules. th_operator th \<notin> set operators \<and>
        msg = ''Invalid operator: '' @ th_operator th \<and>
        starts_with key (loc @ '':'') \<and> contains cd (th_parameter th) = Inr True"
proof (induction rules arbitrary: m)
  case Nil
  then show ?case by simp
next
  case (Cons a rules)
  obtain key th where a: "a = (key, th)" by (cases a)
  show ?case
  proof (cases "starts_with key (loc @ '':'')")
    case False
    with Cons.prems a have "check_rules m loc cd rules = (Inl (ValueError msg), m2)" by simp
    from Cons.IH [OF this] show ?thesis by auto
  next
    case sw: True
    show ?thesis
    proof (cases "contains cd (th_parameter th)")
      case (Inl e)
      with Cons.prems a sw contains_no_value_error [of cd "th_parameter th" msg]
      show ?thesis by (simp add: Let_def)
    next
      case (Inr b)
      show ?thesis
      proof (cases b)
        case False
        with Cons.prems a sw Inr have "check_rules m loc cd rules = (Inl (ValueError msg), m2)"
          by (simp add: Let_def)
        from Cons.IH [OF this] show ?thesis by auto
      next
        case True
        show ?thesis
        proof (cases "subscript cd (th_parameter th)")
          case (Inl e)
          with Cons.prems a sw Inr True subscript_no_value_error [of cd "th_parameter th" msg]
          show ?thesis by (simp add: Let_def)
        next
          case v: (Inr v)
          show ?thesis
          proof (cases "check_condition v (th_operator th) (th_value th)")
            case (Inl e)
            with Cons.prems a sw Inr True v have "e = ValueError msg" by (simp add: Let_def)
            with Inl check_condition_value_error [of v "th_operator th" "th_value th" msg]
            have "th_operator th \<notin> set operators \<and> msg = ''Invalid operator: '' @ th_operator th"
              by simp
            with sw Inr True a show ?thesis by auto
          next
            case c: (Inr c)
            with Cons.prems a sw Inr True v
            have "\<exists>m'. check_rules m' loc cd rules = (Inl (ValueError msg), m2)"
              by (cases c) (auto simp: Let_def)
            then obtain m' where "check_rules m' loc cd rules = (Inl (ValueError msg), m2)" ..
            from Cons.IH [OF this] show ?thesis by auto
          qed
        qed
      qed
    qed
  qed
qed

lemma mon_client_trigger [simp]: "mon_client (trigger_callbacks m ev d) = mon_client m"
  by (simp add: trigger_callbacks_def split: option.splits)

lemma mon_client_check_rules: "mon_client (snd (check_rules m loc cd rules)) = mon_client m"
proof (induction rules arbitrary: m)
  case Nil
  show ?case by simp
next
  case (Cons a rules)
  obtain key th where a: "a = (key, th)" by (cases a)
  show ?case
    unfolding a by (simp add: Cons.IH Let_def split: sum.splits bool.splits)
qed

lemma mon_client_check_rules_eq:
  "check_rules m loc cd rules = (r, m1) \<Longrightarrow> mon_client m1 = mon_client m"
  using mon_client_check_rules [of m loc cd rules] by simp

lemma perform_request_value_error:
  assumes "perform_request E s m ep ps d uc k = (Inl (ValueError msg), s')"
  shows "\<exists>a. msg = ''invalid literal for int() with base 10: '' @ [CHR 0x27] @ a @ [CHR 0x27]"
  using assms
  by (auto simp: perform_request_def Let_def
      split: net_result.splits if_splits option.splits sum.splits)

lemma make_request_once_value_error:
  assumes "make_request_once E s m ep ps d uc = (Inl (ValueError msg), s')"
  shows "\<exists>a. msg = ''invalid literal for int() with base 10: '' @ [CHR 0x27] @ a @ [CHR 0x27]"
  using assms perform_request_value_error
  unfolding make_request_once_def Let_def
  by (auto split: if_splits prod.splits)

lemma make_request_tries_value_error:
  "make_request_tries n E s m ep ps d uc = (Inl (ValueError msg), s') \<Longrightarrow>
     \<exists>a. msg = ''invalid literal for int() with base 10: '' @ [CHR 0x27] @ a @ [CHR 0x27]"
proof (induction n arbitrary: s)
  case 0
  then show ?case using make_request_once_value_error by simp
next
  case (Suc n)
  obtain r s1 where once: "make_request_once E s m ep ps d uc = (r, s1)"
    by (cases "make_request_once E s m ep ps d uc")
  show ?case
  proof (cases r)
    case (Inr v)
    with once Suc.prems show ?thesis by (simp add: Let_def)
  next
    case (Inl e1)
    show ?thesis
    proof (cases e1)
      case (RateLimitError t a)
      with once Inl Suc.prems Suc.IH [of s1] show ?thesis
        by (auto simp: Let_def split: if_splits)
    next
      case (ValueError t)
      with once Inl Suc.prems make_request_once_value_error [of E s m ep ps d uc t s1]
      show ?thesis by (auto simp: Let_def)
    qed (use once Inl Suc.prems in \<open>auto simp: Let_def\<close>)
  qed
qed

lemma get_current_weather_value_error:
  assumes "get_current_weather E s location lat lon units lang = (Inl (ValueError msg), s')"
  shows "msg = ''Either location or coordinates required'' \<or>
         (\<exists>a. msg = ''invalid literal for int() with base 10: '' @ [CHR 0x27] @ a @ [CHR 0x27])"
  using assms make_request_tries_value_error
  by (auto simp: get_current_weather_def make_request_def Let_def split: if_splits)

lemma get_current_weather_grows:
  "\<exists>ys. sent (snd (get_current_weather E s location lat lon units lang)) = sent s @ ys"
  using make_request_tries_grows
  by (auto simp: get_current_weather_def make_request_def Let_def)

lemma check_location_grows:
  "\<exists>ys. sent (mon_client (snd (check_location E m loc))) = sent (mon_client m) @ ys"
proof -
  obtain r c1 where call:
    "get_current_weather E (mon_client m) (Some loc) None None METRIC ''en'' = (r, c1)"
    by (cases "get_current_weather E (mon_client m) (Some loc) None None METRIC ''en''")
  from get_current_weather_grows [of E "mon_client m" "Some loc" None None METRIC "''en''"] call
  obtain ys where "sent c1 = sent (mon_client m) @ ys" by auto
  with call show ?thesis
    by (auto simp: check_location_def Let_def mon_client_check_rules split: sum.splits)
qed

lemma check_locations_grows:
  "\<exists>ys. sent (mon_client (snd (check_locations E m locs))) = sent (mon_client m) @ ys"
proof (induction locs arbitrary: m)
  case Nil
  show ?case by simp
next
  case (Cons loc locs)
  obtain r m1 where step: "check_location E m loc = (r, m1)"
    by (cases "check_location E m loc")
  from check_location_grows [of E m loc] step
  obtain ys where ys: "sent (mon_client m1) = sent (mon_client m) @ ys" by auto
  from Cons.IH [of m1] obtain zs where
    zs: "sent (mon_client (snd (check_locations E m1 locs))) = sent (mon_client m1) @ zs" by auto
  from step ys zs show ?case
    by (auto split: sum.splits)
qed

lemma check_location_fetch_first:
  assumes "fst (check_location E m loc) = Inl (ValueError (''Invalid operator: '' @ operator))"
  shows "\<exists>weather.
           fst (get_current_weather E (mon_client m) (Some loc) None None METRIC ''en'') = Inr weather"
proof -
  obtain r c1 where call:
    "get_current_weather E (mon_client m) (Some loc) None None METRIC ''en'' = (r, c1)"
    by (cases "get_current_weather E (mon_client m) (Some loc) None None METRIC ''en''")
  show ?thesis
  proof (cases r)
    case (Inr weather)
    with call show ?thesis by simp
  next
    case (Inl e)
    with call assms have "e = ValueError (''Invalid operator: '' @ operator)"
      by (simp add: check_location_def)
    with Inl call get_current_weather_value_error
      [of E "mon_client m" "Some loc" None None METRIC "''en''" "''Invalid operator: '' @ operator" c1]
    show ?thesis by auto
  qed
qed

lemma check_locations_request_first:
  assumes emp: "cache (mon_client m) = Map.empty"
    and err: "fst (check_locations E m order) = Inl (ValueError (''Invalid operator: '' @ operator))"
  shows "\<exists>rq ys. sent (mon_client (snd (check_locations E m order))) = sent (mon_client m) @ rq # ys"
proof (cases order)
  case Nil
  with err show ?thesis by simp
next
  case (Cons loc rest)
  obtain r m1 where step: "check_location E m loc = (r, m1)"
    by (cases "check_location E m loc")
  have first: "\<exists>rq ys. sent (mon_client m1) = sent (mon_client m) @ rq # ys"
  proof (cases "loc = []")
    case True
    then have "get_current_weather E (mon_client m) (Some loc) None None METRIC ''en'' =
        (Inl (ValueError ''Either location or coordinates required''), mon_client m)"
      by (simp add: get_current_weather_def)
    with step have "r = Inl (ValueError ''Either location or coordinates required'')"
      by (simp add: check_location_def)
    with step Cons err show ?thesis by simp
  next
    case False
    let ?ps = "[(''units'', PStr ''metric''), (''lang'', PStr ''en''), (''city'', PStr loc)]"
    from False have gcw: "get_current_weather E (mon_client m) (Some loc) None None METRIC ''en'' =
        make_request E (mon_client m) ''GET'' ''/weather/current'' (Some ?ps) None True"
      by (simp add: get_current_weather_def add_location_def)
    from make_request_empty_cache [OF emp, of E "''GET''" "''/weather/current''" "Some ?ps" None True]
    obtain rq ys where "sent (snd (make_request E (mon_client m) ''GET'' ''/weather/current''
        (Some ?ps) None True)) = sent (mon_client m) @ rq # ys" by blast
    with gcw step show ?thesis
      by (auto simp: check_location_def Let_def
          split: prod.splits sum.splits dest: mon_client_check_rules_eq)
  qed
  then obtain rq ys where ys: "sent (mon_client m1) = sent (mon_client m) @ rq # ys" by blast
  from check_locations_grows [of E m1 rest] obtain zs where
    zs: "sent (mon_client (snd (check_locations E m1 rest))) = sent (mon_client m1) @ zs" by blast
  from step Cons ys zs show ?thesis
    by (auto split: sum.splits)
qed

lemma starts_with_key: "starts_with (location @ '':'' @ parameter) (location @ '':'')"
  by (simp add: starts_with_def)

lemma make_request_once_ok:
  assumes "cache s = Map.empty"
    and "net E (sent s @ [bare_request s ep ps]) = Returns r"
    and "status_code r = 200" and "body r = Inr weather"
  shows "fst (make_request_once E s ''GET'' ep (Some ps) None True) = Inr weather"
    and "sent (snd (make_request_once E s ''GET'' ep (Some ps) None True)) =
           sent s @ [bare_request s ep ps]"
  using assms
  by (simp_all add: make_request_once_def get_from_cache_io_empty perform_request_def
      bare_request_def Let_def sent_save_to_cache_io)

lemma make_request_ok:
  assumes "cache s = Map.empty"
    and "net E (sent s @ [bare_request s ep ps]) = Returns r"
    and "status_code r = 200" and "body r = Inr weather"
  shows "fst (make_request E s ''GET'' ep (Some ps) None True) = Inr weather"
    and "sent (snd (make_request E s ''GET'' ep (Some ps) None True)) =
           sent s @ [bare_request s ep ps]"
proof -
  obtain x s1 where once: "make_request_once E s ''GET'' ep (Some ps) None True = (x, s1)"
    by (cases "make_request_once E s ''GET'' ep (Some ps) None True")
  with make_request_once_ok [OF assms] have "x = Inr weather"
    "sent s1 = sent s @ [bare_request s ep ps]" by simp_all
  with once show "fst (make_request E s ''GET'' ep (Some ps) None True) = Inr weather"
    and "sent (snd (make_request E s ''GET'' ep (Some ps) None True)) =
           sent s @ [bare_request s ep ps]"
    by (simp_all add: make_request_def numeral_2_eq_2 Let_def)
qed

text \<open>
  C2 (amended). Let the operator be none of the six. \<^verbatim>\<open>_check_condition\<close> raises the
  \<^verbatim>\<open>ValueError\<close> ``Invalid operator'' whenever it is called with it. \<^verbatim>\<open>set_threshold\<close>
  stores the rule as it is given, without a check, and leaves the client as it is: it
  sends nothing. In the loop of \<^verbatim>\<open>check_thresholds\<close> over the rules, for any rules before
  and after it, a rule with that operator whose key begins with the location and a colon
  raises the error when the loop reaches it and the \<^verbatim>\<open>current\<close> part of the weather has
  the rule's parameter; when the parameter is absent the rule is passed over and the
  loop goes on with the rules after it. Conversely, a \<^verbatim>\<open>ValueError\<close> that leaves the
  loop over any rules is the ``Invalid operator'' of one of these rules, a rule whose
  operator is none of the six, whose key begins with the location and a colon and whose
  parameter the weather has. When the check of a location ends with the error, the fetch
  of the current weather of that location has returned; when \<^verbatim>\<open>check_thresholds\<close>, on a
  client with an empty cache, ends with it, at least one request has been sent by then.
  With that one rule, an empty cache and a server that answers 200 with a weather that
  has the parameter, \<^verbatim>\<open>check_thresholds\<close> raises the error after the request for the
  location has been sent. The error is raised at evaluation, not before the network
  call.
\<close>

theorem invalid_operator_raised_at_evaluation:
  assumes "operator \<notin> set operators"
  shows "check_condition v operator threshold =
           Inl (ValueError (''Invalid operator: '' @ operator))
       \<and> mon_client (set_threshold m parameter operator threshold location) = mon_client m
       \<and> map_of (thresholds (set_threshold m parameter operator threshold location))
            (location @ '':'' @ parameter) =
           Some \<lparr>th_operator = operator, th_value = threshold,
                 th_parameter = parameter, th_location = location\<rparr>
       \<and> (check_rules m0 loc cd before = (Inr (), m1) \<and> th_operator th = operator \<and>
          starts_with key (loc @ '':'') \<and> contains cd (th_parameter th) = Inr True \<and>
          subscript cd (th_parameter th) = Inr x \<longrightarrow>
          check_rules m0 loc cd (before @ (key, th) # rest) =
            (Inl (ValueError (''Invalid operator: '' @ operator)), m1))
       \<and> (check_rules m0 loc cd before = (Inr (), m1) \<and> th_operator th = operator \<and>
          starts_with key (loc @ '':'') \<and> contains cd (th_parameter th) = Inr False \<longrightarrow>
          check_rules m0 loc cd (before @ (key, th) # rest) = check_rules m1 loc cd rest)
       \<and> (check_rules m0 loc cd rules = (Inl (ValueError msg), m2) \<longrightarrow>
          (\<exists>(key, th) \<in> set rules. th_operator th \<notin> set operators \<and>
              msg = ''Invalid operator: '' @ th_operator th \<and>
              starts_with key (loc @ '':'') \<and> contains cd (th_parameter th) = Inr True))
       \<and> (fst (check_location E m loc) = Inl (ValueError (''Invalid operator: '' @ operator)) \<longrightarrow>
          (\<exists>weather. fst (get_current_weather E (mon_client m) (Some loc) None None METRIC ''en'')
                        = Inr weather))
       \<and> (cache (mon_client m) = Map.empty \<and>
          fst (check_thresholds E m order) = Inl (ValueError (''Invalid operator: '' @ operator)) \<longrightarrow>
          (\<exists>rq ys. sent (mon_client (snd (check_thresholds E m order))) =
                     sent (mon_client m) @ rq # ys))
       \<and> (location \<noteq> [] \<and> cache c = Map.empty \<and>
          net E (sent c @ [bare_request c ''/weather/current''
                   [(''units'', PStr ''metric''), (''lang'', PStr ''en''),
                    (''city'', PStr location)]]) = Returns r \<and>
          status_code r = 200 \<and> body r = Inr weather \<and>
          subscript weather ''current'' = Inr current_data \<and>
          contains current_data parameter = Inr True \<and>
          subscript current_data parameter = Inr v \<longrightarrow>
          fst (check_thresholds E
                 (set_threshold (WeatherMonitor_init c) parameter operator threshold location)
                 [location]) =
            Inl (ValueError (''Invalid operator: '' @ operator))
          \<and> sent (mon_client (snd (check_thresholds E
                 (set_threshold (WeatherMonitor_init c) parameter operator threshold location)
                 [location]))) =
            sent c @ [bare_request c ''/weather/current''
                   [(''units'', PStr ''metric''), (''lang'', PStr ''en''),
                    (''city'', PStr location)]])"
proof -
  have A: "check_condition v operator t =
           Inl (ValueError (''Invalid operator: '' @ operator))" for v t
    using assms by (simp add: check_condition_def)
  have B1: "mon_client (set_threshold m parameter operator threshold location) = mon_client m"
    by (simp add: set_threshold_def Let_def)
  have B2: "map_of (thresholds (set_threshold m parameter operator threshold location))
            (location @ '':'' @ parameter) =
           Some \<lparr>th_operator = operator, th_value = threshold,
                 th_parameter = parameter, th_location = location\<rparr>"
    by (simp add: set_threshold_def Let_def update_conv')
  have C: "check_rules m0 loc cd (before @ (key, th) # rest) =
            (Inl (ValueError (''Invalid operator: '' @ operator)), m1)"
    if "check_rules m0 loc cd before = (Inr (), m1)" "th_operator th = operator"
      "starts_with key (loc @ '':'')" "contains cd (th_parameter th) = Inr True"
      "subscript cd (th_parameter th) = Inr x"
    using that A [of x "th_value th"] by (simp add: check_rules_append Let_def)
  have D: "check_rules m0 loc cd (before @ (key, th) # rest) = check_rules m1 loc cd rest"
    if "check_rules m0 loc cd before = (Inr (), m1)" "th_operator th = operator"
      "starts_with key (loc @ '':'')" "contains cd (th_parameter th) = Inr False"
    using that by (simp add: check_rules_append Let_def)
  note E = check_rules_value_error [of m0 loc cd rules msg m2]
  note F = check_location_fetch_first [of E m loc operator]
  note G = check_locations_request_first [of m E order operator]
  have H: "fst (check_thresholds E
                 (set_threshold (WeatherMonitor_init c) parameter operator threshold location)
                 [location]) =
            Inl (ValueError (''Invalid operator: '' @ operator))
          \<and> sent (mon_client (snd (check_thresholds E
                 (set_threshold (WeatherMonitor_init c) parameter operator threshold location)
                 [location]))) =
            sent c @ [bare_request c ''/weather/current''
                   [(''units'', PStr ''metric''), (''lang'', PStr ''en''),
                    (''city'', PStr location)]]"
    if loc: "location \<noteq> []" and emp: "cache c = Map.empty"
      and net: "net E (sent c @ [bare_request c ''/weather/current''
                   [(''units'', PStr ''metric''), (''lang'', PStr ''en''),
                    (''city'', PStr location)]]) = Returns r"
      and st: "status_code r = 200" and bd: "body r = Inr weather"
      and cur: "subscript weather ''current'' = Inr current_data"
      and has: "contains current_data parameter = Inr True"
      and val: "subscript current_data parameter = Inr v"
  proof -
    let ?ps = "[(''units'', PStr ''metric''), (''lang'', PStr ''en''), (''city'', PStr location)]"
    obtain x c1 where call:
      "get_current_weather E c (Some location) None None METRIC ''en'' = (x, c1)"
      by (cases "get_current_weather E c (Some location) None None METRIC ''en''")
    have gcw: "get_current_weather E c (Some location) None None METRIC ''en'' =
        make_request E c ''GET'' ''/weather/current'' (Some ?ps) None True"
      using loc by (simp add: get_current_weather_def add_location_def)
    from gcw call
    have mr: "make_request E c ''GET'' ''/weather/current'' (Some ?ps) None True = (x, c1)"
      by simp
    from make_request_ok [OF emp net st bd]
    have x: "x = Inr weather" and c1: "sent c1 = sent c @ [bare_request c ''/weather/current'' ?ps]"
      unfolding mr by simp_all
    show ?thesis
      using call x c1 cur has val A [of v threshold] starts_with_key [of location parameter]
      by (simp add: check_thresholds_def check_location_def set_threshold_def
          WeatherMonitor_init_def Let_def)
  qed
  have G': "\<exists>rq ys. sent (mon_client (snd (check_thresholds E m order))) =
                     sent (mon_client m) @ rq # ys"
    if "cache (mon_client m) = Map.empty"
      "fst (check_thresholds E m order) = Inl (ValueError (''Invalid operator: '' @ operator))"
    using that G unfolding check_thresholds_def by blast
  from A [of v threshold] B1 B2 C D E F G' H show ?thesis
    by blast
qed

theorem invalid_operator_raised_at_evaluation_witness:
  "check_condition (JNum 31) ''=>'' 30 = Inl (ValueError ''Invalid operator: =>'')
   \<and> mon_client absent_monitor = mon_client demo_monitor
   \<and> map_of (thresholds absent_monitor) ''London:wind'' =
       Some \<lparr>th_operator = ''=>'', th_value = 5, th_parameter = ''wind'',
             th_location = ''London''\<rparr>
   \<and> check_rules unchecked_monitor ''London''
        (JObj [(''temperature'', JNum 31), (''humidity'', JNum 40)])
        (thresholds unchecked_monitor) =
       (Inl (ValueError ''Invalid operator: =>''), unchecked_monitor)
   \<and> check_rules absent_monitor ''London''
        (JObj [(''temperature'', JNum 31), (''humidity'', JNum 40)])
        (thresholds absent_monitor) = (Inr (), absent_monitor)
   \<and> (\<exists>(key, th) \<in> set (thresholds unchecked_monitor).
         th_operator th \<notin> set operators \<and>
         ''Invalid operator: =>'' = ''Invalid operator: '' @ th_operator th \<and>
         starts_with key ''London:'' \<and>
         contains (JObj [(''temperature'', JNum 31), (''humidity'', JNum 40)])
           (th_parameter th) = Inr True)
   \<and> (\<exists>weather. fst (get_current_weather demo_env (mon_client unchecked_monitor)
                        (Some ''London'') None None METRIC ''en'') = Inr weather)
   \<and> iteration_order unchecked_monitor [''London'']
   \<and> (\<exists>rq ys. sent (mon_client (snd (check_thresholds demo_env unchecked_monitor [''London'']))) =
                 sent (mon_client unchecked_monitor) @ rq # ys)
   \<and> fst (check_thresholds demo_env
            (set_threshold (WeatherMonitor_init demo_client) ''temperature'' ''=>'' 30 ''Paris'')
            [''Paris'']) =
       Inl (ValueError ''Invalid operator: =>'')
   \<and> sent (mon_client (snd (check_thresholds demo_env
            (set_threshold (WeatherMonitor_init demo_client) ''temperature'' ''=>'' 30 ''Paris'')
            [''Paris'']))) =
       [bare_request demo_client ''/weather/current''
          [(''units'', PStr ''metric''), (''lang'', PStr ''en''), (''city'', PStr ''Paris'')]]"
proof -
  let ?cd = "JObj [(''temperature'', JNum 31), (''humidity'', JNum 40)]"
  let ?hum = "(''London:humidity'', \<lparr>th_operator = ''>'', th_value = 50,
      th_parameter = ''humidity'', th_location = ''London''\<rparr>)"
  let ?wind = "\<lparr>th_operator = ''=>'', th_value = 5, th_parameter = ''wind'',
      th_location = ''London''\<rparr>"
  let ?temp = "\<lparr>th_operator = ''=>'', th_value = 30, th_parameter = ''temperature'',
      th_location = ''London''\<rparr>"
  let ?r = "\<lparr>status_code = 200, header = (\<lambda>h. None), http_error_text = [],
      body = Inr (weather_of 31)\<rparr>"
  have op: "''=>'' \<notin> set operators" by (simp add: operators_def)
  have rules: "thresholds unchecked_monitor =
      [?hum, (''London:wind'', ?wind)] @ (''London:temperature'', ?temp) # []"
    by (simp add: unchecked_monitor_def mon_defs)
  have rules': "thresholds absent_monitor = [] @ (''London:wind'', ?wind) # []"
    by (simp add: absent_monitor_def mon_defs)
  have before: "check_rules unchecked_monitor ''London'' ?cd [?hum, (''London:wind'', ?wind)] =
      (Inr (), unchecked_monitor)"
    by (simp add: check_condition_def operators_def starts_with_def)
  have before': "check_rules absent_monitor ''London'' ?cd [] = (Inr (), absent_monitor)"
    by simp
  have here: "th_operator ?temp = ''=>'' \<and> starts_with ''London:temperature'' (''London'' @ '':'')
      \<and> contains ?cd (th_parameter ?temp) = Inr True
      \<and> subscript ?cd (th_parameter ?temp) = Inr (JNum 31)"
    by (simp add: starts_with_def)
  have here': "th_operator ?wind = ''=>'' \<and> starts_with ''London:wind'' (''London'' @ '':'')
      \<and> contains ?cd (th_parameter ?wind) = Inr False"
    by (simp add: starts_with_def)
  have run: "fst (check_thresholds demo_env unchecked_monitor [''London'']) =
      Inl (ValueError (''Invalid operator: '' @ ''=>''))"
    by (simp add: unchecked_monitor_def mon_defs demo_defs run_defs)
  have loc: "fst (check_location demo_env unchecked_monitor ''London'') =
      Inl (ValueError (''Invalid operator: '' @ ''=>''))"
    by (simp add: unchecked_monitor_def mon_defs demo_defs run_defs)
  have emp: "cache (mon_client unchecked_monitor) = Map.empty"
    by (simp add: unchecked_monitor_def mon_defs demo_defs)
  have ord: "iteration_order unchecked_monitor [''London'']"
    by (simp add: iteration_order_def unchecked_monitor_def mon_defs)
  have net: "net demo_env (sent demo_client @ [bare_request demo_client ''/weather/current''
                   [(''units'', PStr ''metric''), (''lang'', PStr ''en''),
                    (''city'', PStr ''Paris'')]]) = Returns ?r"
    by (simp add: demo_env_def demo_server_def demo_client_def bare_request_def ok_response_def)
  have pre: "''Paris'' \<noteq> [] \<and> cache demo_client = Map.empty \<and>
      status_code ?r = 200 \<and> body ?r = Inr (weather_of 31) \<and>
      subscript (weather_of 31) ''current'' = Inr ?cd \<and>
      contains ?cd ''temperature'' = Inr True \<and>
      subscript ?cd ''temperature'' = Inr (JNum 31)"
    by (simp add: demo_client_def weather_of_def)
  have nil: "sent demo_client = []" by (simp add: demo_client_def)
  note T1 = invalid_operator_raised_at_evaluation [OF op, where v = "JNum 31" and threshold = 30
      and m = unchecked_monitor and parameter = "''temperature''" and location = "''Paris''"
      and ?m0.0 = unchecked_monitor and ?m1.0 = unchecked_monitor and loc = "''London''"
      and cd = ?cd and before = "[?hum, (''London:wind'', ?wind)]" and th = ?temp
      and key = "''London:temperature''" and x = "JNum 31" and rest = "[]"
      and rules = "thresholds unchecked_monitor" and msg = "''Invalid operator: =>''"
      and ?m2.0 = unchecked_monitor and E = demo_env and order = "[''London'']"
      and c = demo_client and r = ?r and weather = "weather_of 31" and current_data = ?cd]
  note T2 = invalid_operator_raised_at_evaluation [OF op, where v = "JNum 31" and threshold = 5
      and m = demo_monitor and parameter = "''wind''" and location = "''London''"
      and ?m0.0 = absent_monitor and ?m1.0 = absent_monitor and loc = "''London''"
      and cd = ?cd and before = "[]" and th = ?wind
      and key = "''London:wind''" and rest = "[]"]
  note A = T1 [THEN conjunct1]
  note B1 = T2 [THEN conjunct2, THEN conjunct1]
  note B2 = T2 [THEN conjunct2, THEN conjunct2, THEN conjunct1]
  note C0 = T1 [THEN conjunct2, THEN conjunct2, THEN conjunct2, THEN conjunct1, THEN mp]
  note D0 = T2 [THEN conjunct2, THEN conjunct2, THEN conjunct2, THEN conjunct2, THEN conjunct1,
      THEN mp]
  note E0 = T1 [THEN conjunct2, THEN conjunct2, THEN conjunct2, THEN conjunct2, THEN conjunct2,
      THEN conjunct1, THEN mp]
  note F0 = T1 [THEN conjunct2, THEN conjunct2, THEN conjunct2, THEN conjunct2, THEN conjunct2,
      THEN conjunct2, THEN conjunct1, THEN mp]
  note G0 = T1 [THEN conjunct2, THEN conjunct2, THEN conjunct2, THEN conjunct2, THEN conjunct2,
      THEN conjunct2, THEN conjunct2, THEN conjunct1, THEN mp]
  note H0 = T1 [THEN conjunct2, THEN conjunct2, THEN conjunct2, THEN conjunct2, THEN conjunct2,
      THEN conjunct2, THEN conjunct2, THEN conjunct2, THEN mp]
  have B: "mon_client absent_monitor = mon_client demo_monitor
      \<and> map_of (thresholds absent_monitor) ''London:wind'' = Some ?wind"
    unfolding absent_monitor_def using B1 B2 by simp
  have C: "check_rules unchecked_monitor ''London'' ?cd
      (thresholds unchecked_monitor) = (Inl (ValueError ''Invalid operator: =>''), unchecked_monitor)"
    unfolding rules using C0 before here by simp
  have D: "check_rules absent_monitor ''London'' ?cd
      (thresholds absent_monitor) = (Inr (), absent_monitor)"
    unfolding rules' using D0 before' here' by simp
  have E: "\<exists>(key, th) \<in> set (thresholds unchecked_monitor).
         th_operator th \<notin> set operators \<and>
         ''Invalid operator: =>'' = ''Invalid operator: '' @ th_operator th \<and>
         starts_with key ''London:'' \<and> contains ?cd (th_parameter th) = Inr True"
    using E0 [OF C] by simp
  have F: "\<exists>weather. fst (get_current_weather demo_env (mon_client unchecked_monitor)
                        (Some ''London'') None None METRIC ''en'') = Inr weather"
    using F0 [OF loc] .
  have G: "\<exists>rq ys.
      sent (mon_client (snd (check_thresholds demo_env unchecked_monitor [''London'']))) =
        sent (mon_client unchecked_monitor) @ rq # ys"
    using G0 [OF conjI [OF emp run]] .
  have hyp: "''Paris'' \<noteq> [] \<and> cache demo_client = Map.empty \<and>
      net demo_env (sent demo_client @ [bare_request demo_client ''/weather/current''
                   [(''units'', PStr ''metric''), (''lang'', PStr ''en''),
                    (''city'', PStr ''Paris'')]]) = Returns ?r \<and>
      status_code ?r = 200 \<and> body ?r = Inr (weather_of 31) \<and>
      subscript (weather_of 31) ''current'' = Inr ?cd \<and>
      contains ?cd ''temperature'' = Inr True \<and>
      subscript ?cd ''temperature'' = Inr (JNum 31)"
    using net pre by blast
  have H: "fst (check_thresholds demo_env
            (set_threshold (WeatherMonitor_init demo_client) ''temperature'' ''=>'' 30 ''Paris'')
            [''Paris'']) =
       Inl (ValueError ''Invalid operator: =>'')
   \<and> sent (mon_client (snd (check_thresholds demo_env
            (set_threshold (WeatherMonitor_init demo_client) ''temperature'' ''=>'' 30 ''Paris'')
            [''Paris'']))) =
       [bare_request demo_client ''/weather/current''
          [(''units'', PStr ''metric''), (''lang'', PStr ''en''), (''city'', PStr ''Paris'')]]"
    using H0 [OF hyp] unfolding nil by simp
  have A': "check_condition (JNum 31) ''=>'' 30 = Inl (ValueError ''Invalid operator: =>'')"
    using A by simp
  from A' B C D E F ord G H show ?thesis by blast
qed

text \<open>The claim as stated does not hold: a rule with the operator \<^verbatim>\<open>=>\<close> is stored by
  \<^verbatim>\<open>set_threshold\<close>, and the \<^verbatim>\<open>ValueError\<close> comes out of \<^verbatim>\<open>check_thresholds\<close> after the
  request for London has been sent.\<close>

theorem invalid_operator_counterexample:
  "thresholds (set_threshold demo_monitor ''temperature'' ''=>'' 30 ''London'') =
     [(''London:temperature'', \<lparr>th_operator = ''=>'', th_value = 30,
         th_parameter = ''temperature'', th_location = ''London''\<rparr>)]
   \<and> iteration_order (set_threshold demo_monitor ''temperature'' ''=>'' 30 ''London'')
       [''London'']
   \<and> fst (check_thresholds demo_env
            (set_threshold demo_monitor ''temperature'' ''=>'' 30 ''London'') [''London'']) =
       Inl (ValueError ''Invalid operator: =>'')
   \<and> map req_params (sent (mon_client (snd (check_thresholds demo_env
            (set_threshold demo_monitor ''temperature'' ''=>'' 30 ''London'') [''London''])))) =
       [Some [(''units'', PStr ''metric''), (''lang'', PStr ''en''), (''city'', PStr ''London'')]]"
  by (simp add: mon_defs iteration_order_def demo_defs run_defs)

subsection \<open>Rules found by the prefix of the key\<close>

lemmas spec_defs = expected_step_def expected_calls_def rule_calls_def event_of_def
  registered_def

lemma check_rules_ignores_location:
  "check_rules m location current_data (map (\<lambda>(key, th). (key, th\<lparr>th_location := f key th\<rparr>)) rules) =
   check_rules m location current_data rules"
  by (induction m location current_data rules rule: check_rules.induct)
    (simp_all add: Let_def split: sum.splits bool.splits)

lemma two_orders:
  assumes "a \<noteq> b"
  shows "{order. distinct order \<and> set order = {a, b}} = {[a, b], [b, a]}"
proof -
  have "order = [a, b] \<or> order = [b, a]" if d: "distinct order" and s: "set order = {a, b}"
    for order :: "'a list"
  proof -
    from d s assms have "length order = 2" by (metis distinct_card card_2_iff)
    then obtain x y where "order = [x, y]"
      by (metis (no_types, opaque_lifting) Suc_length_conv length_0_conv numeral_2_eq_2)
    with s assms show ?thesis by (auto simp: doubleton_eq_iff)
  qed
  with assms show ?thesis by auto
qed

text \<open>
  C8. The loop over the rules never reads the location of a rule: it takes the rules
  whose key begins with the name of the location and a colon. So the rules of
  \<^verbatim>\<open>Paris:FR\<close> are also evaluated for Paris. The monitor has one callback, the rule
  ``humidity above 50'' for Paris and the rule ``temperature above 30'' for
  \<^verbatim>\<open>Paris:FR\<close>; the loop over the locations meets them in one of two orders. Paris has
  temperature 31 and humidity 40, \<^verbatim>\<open>Paris:FR\<close> has temperature 29 and humidity 40, so no
  rule of either location holds and the description asks for no call. In both orders
  \<^verbatim>\<open>check_thresholds\<close> calls the callback once, with the location Paris, the parameter
  temperature and the value 31. On the monitor with five rules for London, \<^verbatim>\<open>Paris:FR\<close>
  and Oslo, where no key begins with the name of another location, the code does what
  the description says.
\<close>

theorem check_thresholds_prefix_overlap:
  "check_rules m location current_data
       (map (\<lambda>(key, th). (key, th\<lparr>th_location := other key th\<rparr>)) rules) =
     check_rules m location current_data rules
   \<and> thresholds overlap_monitor =
       [(''Paris:humidity'', \<lparr>th_operator = ''>'', th_value = 50,
           th_parameter = ''humidity'', th_location = ''Paris''\<rparr>),
        (''Paris:FR:temperature'', \<lparr>th_operator = ''>'', th_value = 30,
           th_parameter = ''temperature'', th_location = ''Paris:FR''\<rparr>)]
   \<and> {order. iteration_order overlap_monitor order} =
       {[''Paris'', ''Paris:FR''], [''Paris:FR'', ''Paris'']}
   \<and> fst (get_current_weather demo_env demo_client (Some ''Paris'') None None METRIC ''en'') =
       Inr (JObj [(''current'', JObj [(''temperature'', JNum 31), (''humidity'', JNum 40)])])
   \<and> fst (get_current_weather demo_env demo_client (Some ''Paris:FR'') None None METRIC ''en'') =
       Inr (JObj [(''current'', JObj [(''temperature'', JNum 29), (''humidity'', JNum 40)])])
   \<and> fst (check_thresholds demo_env overlap_monitor [''Paris'', ''Paris:FR'']) = Inr ()
   \<and> fired (snd (check_thresholds demo_env overlap_monitor [''Paris'', ''Paris:FR''])) =
       [(7, \<lparr>ev_location = ''Paris'', ev_parameter = ''temperature'', ev_value = JNum 31,
              ev_threshold = 30, ev_operator = ''>''\<rparr>)]
   \<and> fired (expected_run demo_env overlap_monitor [''Paris'', ''Paris:FR'']) = []
   \<and> fst (check_thresholds demo_env overlap_monitor [''Paris:FR'', ''Paris'']) = Inr ()
   \<and> fired (snd (check_thresholds demo_env overlap_monitor [''Paris:FR'', ''Paris''])) =
       [(7, \<lparr>ev_location = ''Paris'', ev_parameter = ''temperature'', ev_value = JNum 31,
              ev_threshold = 30, ev_operator = ''>''\<rparr>)]
   \<and> fired (expected_run demo_env overlap_monitor [''Paris:FR'', ''Paris'']) = []
   \<and> iteration_order watch_monitor [''London'', ''Paris:FR'', ''Oslo'']
   \<and> check_thresholds demo_env watch_monitor [''London'', ''Paris:FR'', ''Oslo''] =
       (Inr (), expected_run demo_env watch_monitor [''London'', ''Paris:FR'', ''Oslo''])
   \<and> fired (expected_run demo_env watch_monitor [''London'', ''Paris:FR'', ''Oslo'']) =
       [(7, \<lparr>ev_location = ''London'', ev_parameter = ''temperature'', ev_value = JNum 31,
              ev_threshold = 30, ev_operator = ''>''\<rparr>),
        (9, \<lparr>ev_location = ''London'', ev_parameter = ''temperature'', ev_value = JNum 31,
              ev_threshold = 30, ev_operator = ''>''\<rparr>),
        (7, \<lparr>ev_location = ''Paris:FR'', ev_parameter = ''temperature'', ev_value = JNum 29,
              ev_threshold = 29, ev_operator = ''>=''\<rparr>),
        (9, \<lparr>ev_location = ''Paris:FR'', ev_parameter = ''temperature'', ev_value = JNum 29,
              ev_threshold = 29, ev_operator = ''>=''\<rparr>)]"
proof -
  have 1: "check_rules m location current_data
       (map (\<lambda>(key, th). (key, th\<lparr>th_location := other key th\<rparr>)) rules) =
     check_rules m location current_data rules"
    by (rule check_rules_ignores_location)
  have 2: "thresholds overlap_monitor =
       [(''Paris:humidity'', \<lparr>th_operator = ''>'', th_value = 50,
           th_parameter = ''humidity'', th_location = ''Paris''\<rparr>),
        (''Paris:FR:temperature'', \<lparr>th_operator = ''>'', th_value = 30,
           th_parameter = ''temperature'', th_location = ''Paris:FR''\<rparr>)]"
    by (simp add: overlap_monitor_def mon_defs)
  have 3: "{order. iteration_order overlap_monitor order} =
       {[''Paris'', ''Paris:FR''], [''Paris:FR'', ''Paris'']}"
    using two_orders [of "''Paris''" "''Paris:FR''"]
    by (simp add: iteration_order_def 2)
  have 4: "fst (get_current_weather demo_env demo_client (Some ''Paris'') None None METRIC ''en'') =
       Inr (JObj [(''current'', JObj [(''temperature'', JNum 31), (''humidity'', JNum 40)])])"
    by (simp add: demo_defs run_defs)
  have 5: "fst (get_current_weather demo_env demo_client (Some ''Paris:FR'') None None METRIC ''en'') =
       Inr (JObj [(''current'', JObj [(''temperature'', JNum 29), (''humidity'', JNum 40)])])"
    by (simp add: demo_defs run_defs)
  have r1: "fst (check_thresholds demo_env overlap_monitor [''Paris'', ''Paris:FR'']) = Inr ()"
    by (simp add: overlap_monitor_def mon_defs demo_defs run_defs)
  have f1: "fired (snd (check_thresholds demo_env overlap_monitor [''Paris'', ''Paris:FR''])) =
       [(7, \<lparr>ev_location = ''Paris'', ev_parameter = ''temperature'', ev_value = JNum 31,
              ev_threshold = 30, ev_operator = ''>''\<rparr>)]"
    by (simp add: overlap_monitor_def mon_defs demo_defs run_defs)
  have 7: "fired (expected_run demo_env overlap_monitor [''Paris'', ''Paris:FR'']) = []"
    by (simp add: overlap_monitor_def spec_defs mon_defs demo_defs run_defs)
  have r2: "fst (check_thresholds demo_env overlap_monitor [''Paris:FR'', ''Paris'']) = Inr ()"
    by (simp add: overlap_monitor_def mon_defs demo_defs run_defs)
  have f2: "fired (snd (check_thresholds demo_env overlap_monitor [''Paris:FR'', ''Paris''])) =
       [(7, \<lparr>ev_location = ''Paris'', ev_parameter = ''temperature'', ev_value = JNum 31,
              ev_threshold = 30, ev_operator = ''>''\<rparr>)]"
    by (simp add: overlap_monitor_def mon_defs demo_defs run_defs)
  have 9: "fired (expected_run demo_env overlap_monitor [''Paris:FR'', ''Paris'']) = []"
    by (simp add: overlap_monitor_def spec_defs mon_defs demo_defs run_defs)
  have 10: "iteration_order watch_monitor [''London'', ''Paris:FR'', ''Oslo'']"
    by (simp add: iteration_order_def watch_monitor_def mon_defs) 
  have 11: "check_thresholds demo_env watch_monitor [''London'', ''Paris:FR'', ''Oslo''] =
       (Inr (), expected_run demo_env watch_monitor [''London'', ''Paris:FR'', ''Oslo''])"
    by (simp add: watch_monitor_def spec_defs mon_defs demo_defs run_defs)
  have 12: "fired (expected_run demo_env watch_monitor [''London'', ''Paris:FR'', ''Oslo'']) =
       [(7, \<lparr>ev_location = ''London'', ev_parameter = ''temperature'', ev_value = JNum 31,
              ev_threshold = 30, ev_operator = ''>''\<rparr>),
        (9, \<lparr>ev_location = ''London'', ev_parameter = ''temperature'', ev_value = JNum 31,
              ev_threshold = 30, ev_operator = ''>''\<rparr>),
        (7, \<lparr>ev_location = ''Paris:FR'', ev_parameter = ''temperature'', ev_value = JNum 29,
              ev_threshold = 29, ev_operator = ''>=''\<rparr>),
        (9, \<lparr>ev_location = ''Paris:FR'', ev_parameter = ''temperature'', ev_value = JNum 29,
              ev_threshold = 29, ev_operator = ''>=''\<rparr>)]"
    by (simp add: watch_monitor_def spec_defs mon_defs demo_defs run_defs)
  show ?thesis by (intro conjI 1 2 3 4 5 r1 f1 7 r2 f2 9 10 11 12)
qed

end
